theory Spec2Isabelle
  imports Complex_Main
begin

section \<open>Data model (types.ts)\<close>

text \<open>
  The worker keeps all of its state in one Cloudflare KV namespace, \<open>TOKEN_KV\<close>, and
  talks to three remote services (the WeChat login provider, the token exchange and
  check-in API, the mail service). The model passes the store explicitly, takes every
  remote reply and every reading of \<open>Date.now()\<close> as an input of the call that
  consumes it, and records the outgoing mails and check-in submissions in a log.

  Numbers are JavaScript numbers in the source; all of them here are epoch
  milliseconds, seconds or status codes, which are integers far below \<open>2^53\<close>, so they
  are modelled as \<open>int\<close>. Strings are byte lists; the non-ASCII literals of the
  source are given by their UTF-8 bytes.
\<close>

text \<open>
  Modelled from the spec: the enum \<open>WeChatLoginStatus\<close> that polling-service.ts imports
  from types.ts is not part of the available sources (the types.ts at hand predates
  it). Its six members are the ones the code names. The code stores the provider's
  numeric \<open>wx_errcode\<close> in the same field (\<open>pollingStatus.status = loginResult.status\<close>),
  so the members are numbers. Every function below takes the enum as its first
  argument and no general theorem depends on the values chosen.
\<close>

record WeChatLoginStatus =
  WAITING :: int
  SCANNED :: int
  CONFIRMED :: int
  EXPIRED :: int
  SERVER_ERROR :: int
  ERROR :: int

text \<open>
  Modelled from the spec: a concrete enum for evaluating the code at sample inputs. The
  first four values are the provider codes that \<open>pollWeChatLogin\<close> reports for the
  states of the same name (404 waiting, 408 scanned, 405 confirmed, 403 expired); the
  last two are placeholders different from these.
\<close>

definition errcodes :: WeChatLoginStatus where
  "errcodes = \<lparr>WAITING = 404, SCANNED = 408, CONFIRMED = 405, EXPIRED = 403,
               SERVER_ERROR = 500, ERROR = 0\<rparr>"

record PollingStatus =
  status :: int
  message :: "string option"
  wxCode :: "string option"
  uuid :: "string option"
  timestamp :: int

record PollingResponse =
  success :: bool
  status :: int
  wxCode :: "string option"
  message :: "string option"

record TokenExchangeResponse =
  success :: bool
  token :: "string option"
  expire :: "int option"
  message :: "string option"

record TokenInfo =
  token :: string
  expire :: int

record CheckinResult =
  success :: bool
  message :: string

text \<open>The value stored under \<open>onetime_<token>\<close>; the reader treats it as untyped JSON,
  so the two fields it inspects may be absent.\<close>

record OneTimeLink =
  purpose :: "string option"
  createdAt :: int
  expiresAt :: "int option"

record Env =
  AUTH_WORKER_URL :: "string option"
  USER_NAME :: string
  THREAD_ID :: int

subsection \<open>JavaScript truthiness and number formatting\<close>

definition truthy_string :: "string option \<Rightarrow> bool" where
  "truthy_string v = (case v of None \<Rightarrow> False | Some s \<Rightarrow> s \<noteq> [])"

definition truthy_number :: "int option \<Rightarrow> bool" where
  "truthy_number v = (case v of None \<Rightarrow> False | Some n \<Rightarrow> n \<noteq> 0)"

fun digits :: "nat \<Rightarrow> string" where
  "digits n = (if n < 10 then [char_of (48 + n)]
               else digits (n div 10) @ [char_of (48 + n mod 10)])"

definition toString :: "int \<Rightarrow> string" where
  "toString i = (if i < 0 then CHR ''-'' # digits (nat (- i)) else digits (nat i))"

text \<open>\<open>String.prototype.includes\<close>: the needle occurs as a contiguous run.\<close>

fun starts_with :: "string \<Rightarrow> string \<Rightarrow> bool" where
  "starts_with s [] = True"
| "starts_with [] (c # cs) = False"
| "starts_with (x # xs) (c # cs) = (x = c \<and> starts_with xs cs)"

fun includes_str :: "string \<Rightarrow> string \<Rightarrow> bool" where
  "includes_str [] needle = (needle = [])"
| "includes_str (x # xs) needle = (starts_with (x # xs) needle \<or> includes_str xs needle)"

subsection \<open>The store and the outgoing calls\<close>

text \<open>
  Each key family of \<open>TOKEN_KV\<close> holds values of one shape, and the keys the worker
  builds for different families never coincide (\<open>polling_<ms>_<rand>\<close>,
  \<open>polling_<ms>_<rand>_uuid\<close>, \<open>wechat_token\<close>, \<open>onetime_<hex>\<close>), so the store is
  modelled as one finite map per family. Every entry carries the \<open>expirationTtl\<close> (in
  seconds) it was written with; eviction by the platform is outside the model.

  A KV operation is a remote call and may reject; \<open>kv_faults\<close> says, for an operation
  and a key, whether the call throws and with which message. A store whose operations
  all succeed (the contract the spec assumes) is \<open>reliable\<close>.
\<close>

datatype kv_op = Get | Put | Delete

type_synonym kv_faults = "kv_op \<Rightarrow> string \<Rightarrow> string option"

definition reliable :: "kv_faults \<Rightarrow> bool" where
  "reliable F = (\<forall>op k. F op k = None)"

definition no_faults :: kv_faults where
  "no_faults = (\<lambda>op k. None)"

text \<open>The mails are told apart by their subject line; the payload is the text the body
  interpolates.\<close>

datatype email =
    LoginSuccessEmail
  | CheckinSuccessEmail string
  | CheckinReminderEmail string
  | LoginRequiredEmail string
  | SystemErrorEmail string

datatype call =
    SendEmail email
  | SubmitCheckIn string string int
  | TriggerCheckin

record system =
  sessions :: "string \<rightharpoonup> PollingStatus \<times> int"
  uuids :: "string \<rightharpoonup> string \<times> int"
  wechat_token :: "(TokenInfo \<times> int) option"
  onetime :: "string \<rightharpoonup> OneTimeLink \<times> int"
  calls :: "call list"

section \<open>lib/wechat-utils.ts\<close>

definition msg_scan_ok :: string where
  "msg_scan_ok = [CHR 0xE6, CHR 0x89, CHR 0xAB, CHR 0xE7, CHR 0xA0, CHR 0x81,
                  CHR 0xE6, CHR 0x88, CHR 0x90, CHR 0xE5, CHR 0x8A, CHR 0x9F]"

definition msg_qr_expired :: string where
  "msg_qr_expired = [CHR 0xE4, CHR 0xBA, CHR 0x8C, CHR 0xE7, CHR 0xBB, CHR 0xB4,
     CHR 0xE7, CHR 0xA0, CHR 0x81, CHR 0xE5, CHR 0xB7, CHR 0xB2, CHR 0xE8, CHR 0xBF,
     CHR 0x87, CHR 0xE6, CHR 0x9C, CHR 0x9F, CHR 0xEF, CHR 0xBC, CHR 0x8C, CHR 0xE8,
     CHR 0xAF, CHR 0xB7, CHR 0xE9, CHR 0x87, CHR 0x8D, CHR 0xE8, CHR 0xAF, CHR 0x95]"

definition msg_waiting_scan :: string where
  "msg_waiting_scan = [CHR 0xE7, CHR 0xAD, CHR 0x89, CHR 0xE5, CHR 0xBE, CHR 0x85,
     CHR 0xE6, CHR 0x89, CHR 0xAB, CHR 0xE6, CHR 0x8F, CHR 0x8F, CHR 0xE4, CHR 0xBA,
     CHR 0x8C, CHR 0xE7, CHR 0xBB, CHR 0xB4, CHR 0xE7, CHR 0xA0, CHR 0x81]"

definition msg_scanned :: string where
  "msg_scanned = [CHR 0xE4, CHR 0xBA, CHR 0x8C, CHR 0xE7, CHR 0xBB, CHR 0xB4,
     CHR 0xE7, CHR 0xA0, CHR 0x81, CHR 0xE5, CHR 0xB7, CHR 0xB2, CHR 0xE6, CHR 0x89,
     CHR 0xAB, CHR 0xE6, CHR 0x8F, CHR 0x8F, CHR 0xEF, CHR 0xBC, CHR 0x8C, CHR 0xE7,
     CHR 0xAD, CHR 0x89, CHR 0xE5, CHR 0xBE, CHR 0x85, CHR 0xE7, CHR 0xA1, CHR 0xAE,
     CHR 0xE8, CHR 0xAE, CHR 0xA4]"

definition msg_unknown_status :: string where
  "msg_unknown_status = [CHR 0xE6, CHR 0x9C, CHR 0xAA, CHR 0xE7, CHR 0x9F, CHR 0xA5,
     CHR 0xE7, CHR 0x8A, CHR 0xB6, CHR 0xE6, CHR 0x80, CHR 0x81, CHR 0xE7, CHR 0xA0,
     CHR 0x81] @ '': ''"

definition msg_token_failed :: string where
  "msg_token_failed = [CHR 0xE2, CHR 0x9D, CHR 0x8C] @ '' ''
     @ [CHR 0xE8, CHR 0x8E, CHR 0xB7, CHR 0xE5, CHR 0x8F, CHR 0x96] @ '' Token ''
     @ [CHR 0xE5, CHR 0xA4, CHR 0xB1, CHR 0xE8, CHR 0xB4, CHR 0xA5]"

text \<open>
  What the request to the provider's long-poll endpoint comes to. \<open>PollThrows m\<close>: the
  \<open>fetch\<close> (or reading the body) rejects with an error whose message is \<open>m\<close>.
  \<open>PollNotOk st txt\<close>: a reply with \<open>response.ok\<close> false. \<open>PollBody st errcode code\<close>:
  a reply with \<open>response.ok\<close>, HTTP status \<open>st\<close>, and the two fields the regular
  expressions \<open>wx_errcode=(\d+)\<close> and \<open>wx_code='([^']+)'\<close> extract from the body.
\<close>

datatype poll_http =
    PollThrows string
  | PollNotOk int string
  | PollBody int "nat option" "string option"

text \<open>The object literals \<open>{success, status, wxCode, message}\<close> that \<open>pollWeChatLogin\<close>
  returns; an omitted member is \<open>None\<close>.\<close>

definition PollingResponse_of ::
  "bool \<Rightarrow> int \<Rightarrow> string option \<Rightarrow> string \<Rightarrow> PollingResponse" where
  "PollingResponse_of ok st code m =
     \<lparr>PollingResponse.success = ok, PollingResponse.status = st,
      PollingResponse.wxCode = code, PollingResponse.message = Some m\<rparr>"

definition pollWeChatLogin :: "string \<Rightarrow> poll_http \<Rightarrow> PollingResponse" where
  "pollWeChatLogin uid h =
    (if uid = [] \<or> length uid < 10 then
       PollingResponse_of False 0 None (''Invalid UUID format: '' @ uid)
     else case h of
       PollThrows m \<Rightarrow> PollingResponse_of False 0 None m
     | PollNotOk st txt \<Rightarrow>
         PollingResponse_of False st None (''HTTP '' @ toString st @ '': '' @ txt)
     | PollBody st errcode code \<Rightarrow>
         if errcode = Some 405 \<and> truthy_string code then
           PollingResponse_of True 405 code msg_scan_ok
         else if errcode = Some 403 then
           PollingResponse_of True 403 None msg_qr_expired
         else if errcode = Some 404 then
           PollingResponse_of True 404 None msg_waiting_scan
         else
           let st' = (case errcode of None \<Rightarrow> st
                      | Some e \<Rightarrow> if e = 0 then st else int e)
           in if st' = 408 then
                PollingResponse_of True 408 None msg_scanned
              else
                PollingResponse_of False st' None (msg_unknown_status @ toString st'))"

text \<open>
  What the token exchange request comes to. \<open>ExchangeThrows m\<close>: the \<open>fetch\<close> or the
  JSON decoding rejects. \<open>ExchangeNotOk st txt body\<close>: a reply with \<open>response.ok\<close>
  false. \<open>ExchangeJson tok expiry\<close>: a JSON reply, with the \<open>Token\<close> and \<open>Expire\<close> members of
  its \<open>Data\<close> object where present.
\<close>

datatype exchange_http =
    ExchangeThrows string
  | ExchangeNotOk int string string
  | ExchangeJson "string option" "int option"

definition exchange_failed :: "string \<Rightarrow> TokenExchangeResponse" where
  "exchange_failed m =
     \<lparr>TokenExchangeResponse.success = False, TokenExchangeResponse.token = None,
      TokenExchangeResponse.expire = None, TokenExchangeResponse.message = Some m\<rparr>"

definition exchangeWeChatCode :: "string \<Rightarrow> exchange_http \<Rightarrow> TokenExchangeResponse" where
  "exchangeWeChatCode code h =
    (case h of
       ExchangeThrows m \<Rightarrow> exchange_failed m
     | ExchangeNotOk st txt body \<Rightarrow>
         exchange_failed (''HTTP '' @ toString st @ '': '' @ txt @ '' - '' @ body)
     | ExchangeJson tokenData expiry \<Rightarrow>
         if truthy_string tokenData \<and> truthy_number expiry then
           \<lparr>TokenExchangeResponse.success = True,
            TokenExchangeResponse.token = map_option (\<lambda>t. ''Bearer '' @ t) tokenData,
            TokenExchangeResponse.expire = expiry,
            TokenExchangeResponse.message = None\<rparr>
         else exchange_failed msg_token_failed)"

section \<open>polling-service.ts\<close>

text \<open>
  The inputs of one run of \<open>processPollingSession\<close>: the provider's answer to the poll,
  the answer to the token exchange (consulted only when the poll delivers a code), and
  the two clock readings of lines 103 and 104.
\<close>

record tick =
  pollHttp :: poll_http
  exchangeHttp :: exchange_http
  nowExpire :: int
  nowTtl :: int

text \<open>
  \<open>startPollingSession\<close>: the identifier is built from a clock reading and a random
  suffix (\<open>Math.random().toString(36).slice(2, 11)\<close>); the session document carries a
  second clock reading as its \<open>timestamp\<close>. Both entries get 300 seconds. The result is
  the \<open>pollingId\<close> on success and the error text otherwise.
\<close>

definition startPollingSession ::
  "WeChatLoginStatus \<Rightarrow> kv_faults \<Rightarrow> int \<Rightarrow> string \<Rightarrow> int \<Rightarrow> string \<Rightarrow> system
     \<Rightarrow> (string + string) \<times> system" where
  "startPollingSession E F nowId rand nowTs uid s =
    (let pollingId = ''polling_'' @ toString nowId @ ''_'' @ rand;
         pollingStatus = \<lparr>PollingStatus.status = WAITING E, PollingStatus.message = None,
                          PollingStatus.wxCode = None, PollingStatus.uuid = None,
                          PollingStatus.timestamp = nowTs\<rparr>
     in case F Put pollingId of
          Some e \<Rightarrow> (Inl e, s)
        | None \<Rightarrow>
            let s1 = s\<lparr>sessions := (sessions s)(pollingId \<mapsto> (pollingStatus, 300))\<rparr>
            in case F Put (pollingId @ ''_uuid'') of
                 Some e \<Rightarrow> (Inl e, s1)
               | None \<Rightarrow> (Inr pollingId, s1\<lparr>uuids := (uuids s1)(pollingId \<mapsto> (uid, 300))\<rparr>))"

text \<open>
  Lines 101--173: what \<open>processPollingSession\<close> does with the result of the token
  exchange. A successful result with a token is stored under \<open>wechat_token\<close>, the
  success mail is sent and the worker's own \<open>/trigger-checkin\<close> is requested (its
  outcome is only logged); the session document becomes \<open>CONFIRMED\<close>. Any other result
  makes it \<open>ERROR\<close> with the exchange's message. The only statement that can throw is
  the \<open>put\<close>.
\<close>

definition onTokenResult ::
  "WeChatLoginStatus \<Rightarrow> kv_faults \<Rightarrow> tick \<Rightarrow> TokenExchangeResponse \<Rightarrow> PollingStatus
     \<Rightarrow> system \<Rightarrow> (string + PollingStatus) \<times> system" where
  "onTokenResult E F W tokenResult pollingStatus s =
    (case (TokenExchangeResponse.success tokenResult, TokenExchangeResponse.token tokenResult) of
       (True, Some tok) \<Rightarrow>
         if tok = [] then
           (Inr (pollingStatus\<lparr>PollingStatus.status := ERROR E,
                   PollingStatus.message := TokenExchangeResponse.message tokenResult\<rparr>), s)
         else
           let expireTime =
                 (case TokenExchangeResponse.expire tokenResult of
                    None \<Rightarrow> nowExpire W + 3 * 24 * 60 * 60 * 1000
                  | Some e \<Rightarrow> if e = 0 then nowExpire W + 3 * 24 * 60 * 60 * 1000 else e);
               ttlSeconds = max 300 ((expireTime - nowTtl W) div 1000);
               tokenInfo = \<lparr>TokenInfo.token = tok, TokenInfo.expire = expireTime\<rparr>
           in (case F Put ''wechat_token'' of
                 Some e \<Rightarrow> (Inl e, s)
               | None \<Rightarrow>
                   (Inr (pollingStatus\<lparr>PollingStatus.status := CONFIRMED E\<rparr>),
                    s\<lparr>wechat_token := Some (tokenInfo, ttlSeconds),
                      calls := calls s @ [SendEmail LoginSuccessEmail, TriggerCheckin]\<rparr>))
     | _ \<Rightarrow>
         (Inr (pollingStatus\<lparr>PollingStatus.status := ERROR E,
                 PollingStatus.message := TokenExchangeResponse.message tokenResult\<rparr>), s))"

text \<open>
  Lines 86--175: the session document after the poll. A failed poll gives \<open>ERROR\<close> with
  the poll's message; a successful one copies the provider's code and message and, when
  a \<open>wxCode\<close> came with it, exchanges the code.
\<close>

definition onLoginResult ::
  "WeChatLoginStatus \<Rightarrow> kv_faults \<Rightarrow> tick \<Rightarrow> PollingResponse \<Rightarrow> PollingStatus
     \<Rightarrow> system \<Rightarrow> (string + PollingStatus) \<times> system" where
  "onLoginResult E F W loginResult pollingStatus s =
    (if \<not> PollingResponse.success loginResult then
       (Inr (pollingStatus\<lparr>PollingStatus.status := ERROR E,
               PollingStatus.message := PollingResponse.message loginResult\<rparr>), s)
     else
       let ps1 = pollingStatus\<lparr>PollingStatus.status := PollingResponse.status loginResult,
                   PollingStatus.message := PollingResponse.message loginResult\<rparr>
       in case PollingResponse.wxCode loginResult of
            None \<Rightarrow> (Inr ps1, s)
          | Some code \<Rightarrow>
              if code = [] then (Inr ps1, s)
              else onTokenResult E F W (exchangeWeChatCode code (exchangeHttp W))
                     (ps1\<lparr>PollingStatus.wxCode := Some code\<rparr>) s)"

text \<open>
  The body of the \<open>try\<close> block of \<open>processPollingSession\<close>: \<open>Inl e\<close> is an exception
  thrown inside it, paired with the store as it is at that moment.
\<close>

definition processPollingSession_try ::
  "WeChatLoginStatus \<Rightarrow> kv_faults \<Rightarrow> tick \<Rightarrow> string \<Rightarrow> system \<Rightarrow> (string + unit) \<times> system" where
  "processPollingSession_try E F W pollingId s =
    (case F Get pollingId of
       Some e \<Rightarrow> (Inl e, s)
     | None \<Rightarrow>
       (case sessions s pollingId of
          None \<Rightarrow> (Inr (), s)
        | Some (pollingStatus, ttl) \<Rightarrow>
            if PollingStatus.status pollingStatus
                 \<in> set [CONFIRMED E, EXPIRED E, SERVER_ERROR E, ERROR E]
            then (Inr (), s)
            else
              (case F Get (pollingId @ ''_uuid'') of
                 Some e \<Rightarrow> (Inl e, s)
               | None \<Rightarrow>
                 (case uuids s pollingId of
                    None \<Rightarrow> (Inr (), s)
                  | Some (uid, ttl') \<Rightarrow>
                      if uid = [] then (Inr (), s)
                      else
                        (case onLoginResult E F W (pollWeChatLogin uid (pollHttp W))
                                pollingStatus s of
                           (Inl e, s1) \<Rightarrow> (Inl e, s1)
                         | (Inr ps2, s1) \<Rightarrow>
                             (case F Put pollingId of
                                Some e \<Rightarrow> (Inl e, s1)
                              | None \<Rightarrow>
                                  (Inr (),
                                   s1\<lparr>sessions := (sessions s1)(pollingId \<mapsto>
                                     (ps2, if PollingStatus.status ps2 = WAITING E
                                           then 300 else 3600))\<rparr>)))))))"

text \<open>\<open>processPollingSession\<close>: the \<open>catch\<close> at lines 184--187 logs the exception and
  returns.\<close>

definition processPollingSession ::
  "WeChatLoginStatus \<Rightarrow> kv_faults \<Rightarrow> tick \<Rightarrow> string \<Rightarrow> system \<Rightarrow> (string + unit) \<times> system" where
  "processPollingSession E F W pollingId s =
    (case processPollingSession_try E F W pollingId s of
       (Inl e, s') \<Rightarrow> (Inr (), s')
     | (Inr u, s') \<Rightarrow> (Inr u, s'))"

definition msg_session_missing :: string where
  "msg_session_missing = [CHR 0xE8, CHR 0xBD, CHR 0xAE, CHR 0xE8, CHR 0xAF, CHR 0xA2,
     CHR 0xE4, CHR 0xBC, CHR 0x9A, CHR 0xE8, CHR 0xAF, CHR 0x9D, CHR 0xE4, CHR 0xB8,
     CHR 0x8D, CHR 0xE5, CHR 0xAD, CHR 0x98, CHR 0xE5, CHR 0x9C, CHR 0xA8, CHR 0xE6,
     CHR 0x88, CHR 0x96, CHR 0xE5, CHR 0xB7, CHR 0xB2, CHR 0xE8, CHR 0xBF, CHR 0x87,
     CHR 0xE6, CHR 0x9C, CHR 0x9F]"

text \<open>The answer of \<open>getPollingStatus\<close>: \<open>{success, status?, message?, error?}\<close>.\<close>

record StatusResult =
  success :: bool
  status :: "string option"
  message :: "string option"
  error :: "string option"

definition status_error :: "string \<Rightarrow> StatusResult" where
  "status_error e = \<lparr>StatusResult.success = False, StatusResult.status = None,
                     StatusResult.message = None, StatusResult.error = Some e\<rparr>"

definition status_of :: "PollingStatus \<Rightarrow> StatusResult" where
  "status_of pollingStatus =
     \<lparr>StatusResult.success = True,
      StatusResult.status = Some (toString (PollingStatus.status pollingStatus)),
      StatusResult.message = PollingStatus.message pollingStatus,
      StatusResult.error = None\<rparr>"

text \<open>\<open>getPollingStatus\<close>, with the clock reading of line 209. Every exception is turned
  into an error answer by the \<open>catch\<close>, so the function always returns an answer.\<close>

definition getPollingStatus ::
  "WeChatLoginStatus \<Rightarrow> kv_faults \<Rightarrow> int \<Rightarrow> string \<Rightarrow> system \<Rightarrow> StatusResult \<times> system" where
  "getPollingStatus E F now pollingId s =
    (case F Get pollingId of
       Some e \<Rightarrow> (status_error e, s)
     | None \<Rightarrow>
       (case sessions s pollingId of
          None \<Rightarrow> (status_error msg_session_missing, s)
        | Some (pollingStatus, ttl) \<Rightarrow>
            if now - PollingStatus.timestamp pollingStatus > 5 * 60 * 1000 then
              (case F Put pollingId of
                 Some e \<Rightarrow> (status_error e, s)
               | None \<Rightarrow>
                   let ps' = pollingStatus\<lparr>PollingStatus.status := EXPIRED E\<rparr>
                   in (status_of ps',
                       s\<lparr>sessions := (sessions s)(pollingId \<mapsto> (ps', 3600))\<rparr>))
            else (status_of pollingStatus, s)))"

text \<open>
  The \<open>/login-status\<close> route of the worker (checkin-scheduler.ts, lines 173--191), after
  its input validation and rate limiting: one tick of the session, then the status
  query. \<open>nowStatus\<close> is the clock reading of the query.
\<close>

definition msg_status_failed :: string where
  "msg_status_failed = [CHR 0xE6, CHR 0x9F, CHR 0xA5, CHR 0xE8, CHR 0xAF, CHR 0xA2,
     CHR 0xE7, CHR 0x99, CHR 0xBB, CHR 0xE5, CHR 0xBD, CHR 0x95, CHR 0xE7, CHR 0x8A,
     CHR 0xB6, CHR 0xE6, CHR 0x80, CHR 0x81, CHR 0xE5, CHR 0xA4, CHR 0xB1, CHR 0xE8,
     CHR 0xB4, CHR 0xA5]"

definition loginStatus ::
  "WeChatLoginStatus \<Rightarrow> kv_faults \<Rightarrow> tick \<Rightarrow> int \<Rightarrow> string \<Rightarrow> system \<Rightarrow> StatusResult \<times> system" where
  "loginStatus E F W nowStatus pollingId s =
    (case processPollingSession E F W pollingId s of
       (Inl e, s1) \<Rightarrow> (status_error msg_status_failed, s1)
     | (Inr u, s1) \<Rightarrow> getPollingStatus E F nowStatus pollingId s1)"

section \<open>lib/storage.ts\<close>

definition getToken :: "kv_faults \<Rightarrow> system \<Rightarrow> TokenInfo option" where
  "getToken F s =
    (case F Get ''wechat_token'' of
       Some e \<Rightarrow> None
     | None \<Rightarrow> map_option fst (wechat_token s))"

definition setToken :: "kv_faults \<Rightarrow> int \<Rightarrow> TokenInfo \<Rightarrow> system \<Rightarrow> (string + unit) \<times> system" where
  "setToken F now tokenInfo s =
    (let ttlSeconds = max 300 ((TokenInfo.expire tokenInfo - now) div 1000)
     in case F Put ''wechat_token'' of
          Some e \<Rightarrow> (Inl e, s)
        | None \<Rightarrow> (Inr (), s\<lparr>wechat_token := Some (tokenInfo, ttlSeconds)\<rparr>))"

text \<open>\<open>storeOneTimeLink\<close> overwrites \<open>createdAt\<close> with its own clock reading.\<close>

definition storeOneTimeLink ::
  "kv_faults \<Rightarrow> int \<Rightarrow> string \<Rightarrow> OneTimeLink \<Rightarrow> int \<Rightarrow> system \<Rightarrow> (string + unit) \<times> system" where
  "storeOneTimeLink F now tok data ttl s =
    (case F Put (''onetime_'' @ tok) of
       Some e \<Rightarrow> (Inl e, s)
     | None \<Rightarrow> (Inr (), s\<lparr>onetime := (onetime s)(tok \<mapsto> (data\<lparr>createdAt := now\<rparr>, ttl))\<rparr>))"

definition getOneTimeLink :: "kv_faults \<Rightarrow> string \<Rightarrow> system \<Rightarrow> OneTimeLink option" where
  "getOneTimeLink F tok s =
    (case F Get (''onetime_'' @ tok) of
       Some e \<Rightarrow> None
     | None \<Rightarrow> map_option fst (onetime s tok))"

definition consumeOneTimeLink ::
  "kv_faults \<Rightarrow> string \<Rightarrow> system \<Rightarrow> OneTimeLink option \<times> system" where
  "consumeOneTimeLink F tok s =
    (case getOneTimeLink F tok s of
       None \<Rightarrow> (None, s)
     | Some data \<Rightarrow>
         (case F Delete (''onetime_'' @ tok) of
            Some e \<Rightarrow> (None, s)
          | None \<Rightarrow> (Some data, s\<lparr>onetime := (onetime s)(tok := None)\<rparr>)))"

text \<open>\<open>TokenValidator.isTokenValid\<close>, with its clock reading.\<close>

definition isTokenValid :: "kv_faults \<Rightarrow> int \<Rightarrow> system \<Rightarrow> bool" where
  "isTokenValid F now s =
    (case getToken F s of
       None \<Rightarrow> False
     | Some tokenInfo \<Rightarrow> TokenInfo.expire tokenInfo > now)"

section \<open>lib/auth-utils.ts\<close>

text \<open>
  \<open>generateOneTimeLink\<close>: \<open>rand\<close> is \<open>crypto.randomBytes(32).toString('hex')\<close>,
  \<open>nowExpires\<close> the clock reading that \<open>expiresAt\<close> is computed from and \<open>nowStored\<close>
  the one \<open>storeOneTimeLink\<close> takes. A missing \<open>AUTH_WORKER_URL\<close> is interpolated as
  \<open>undefined\<close>.
\<close>

definition generateOneTimeLink ::
  "kv_faults \<Rightarrow> Env \<Rightarrow> string \<Rightarrow> int \<Rightarrow> int \<Rightarrow> system \<Rightarrow> (string + string) \<times> system" where
  "generateOneTimeLink F env rand nowExpires nowStored s =
    (case storeOneTimeLink F nowStored rand
            \<lparr>purpose = Some ''wechat_auth'', createdAt = nowExpires,
             expiresAt = Some (nowExpires + 24 * 60 * 60 * 1000)\<rparr> 86400 s of
       (Inl e, s') \<Rightarrow> (Inl ''Failed to generate one-time link'', s')
     | (Inr u, s') \<Rightarrow>
         (Inr ((case AUTH_WORKER_URL env of None \<Rightarrow> ''undefined'' | Some baseUrl \<Rightarrow> baseUrl)
               @ ''/auth/'' @ rand), s'))"

definition validateOneTimeLink ::
  "kv_faults \<Rightarrow> int \<Rightarrow> string \<Rightarrow> system \<Rightarrow> bool \<times> system" where
  "validateOneTimeLink F now tok s =
    (if tok = [] \<or> length tok < 32 then (False, s)
     else case consumeOneTimeLink F tok s of
       (None, s') \<Rightarrow> (False, s')
     | (Some data, s') \<Rightarrow>
         if purpose data \<noteq> Some ''wechat_auth'' then (False, s')
         else (case expiresAt data of
                 None \<Rightarrow> (True, s')
               | Some e \<Rightarrow> if e \<noteq> 0 \<and> e < now then (False, s') else (True, s')))"

section \<open>lib/checkin-utils.ts and lib/checkin-service.ts\<close>

definition checkin_ok_marker :: string where
  "checkin_ok_marker = [CHR 0xE6, CHR 0x89, CHR 0x93, CHR 0xE5, CHR 0x8D, CHR 0xA1,
                        CHR 0xE6, CHR 0x88, CHR 0x90, CHR 0xE5, CHR 0x8A, CHR 0x9F]"

text \<open>
  What the request to \<open>/api/CheckIn/EditRecord\<close> comes to. \<open>CheckinThrows m\<close>: an
  exception inside the \<open>try\<close> block of \<open>submitCheckIn\<close> with message \<open>m\<close> (the
  \<open>fetch\<close> rejects, or the reply has no \<open>Description\<close> to search).
  \<open>CheckinDescription d\<close>: a reply whose \<open>Description\<close> is \<open>d\<close>.
\<close>

datatype checkin_http = CheckinThrows string | CheckinDescription string

definition submitCheckIn :: "checkin_http \<Rightarrow> CheckinResult" where
  "submitCheckIn h =
    (case h of
       CheckinThrows m \<Rightarrow> \<lparr>CheckinResult.success = False, CheckinResult.message = m\<rparr>
     | CheckinDescription description \<Rightarrow>
         if includes_str description checkin_ok_marker then
           \<lparr>CheckinResult.success = True, CheckinResult.message = description\<rparr>
         else
           \<lparr>CheckinResult.success = False, CheckinResult.message = description\<rparr>)"

text \<open>
  \<open>performCheckin(token, threadId, signature)\<close> submits the record and logs the
  submission; \<open>CheckinService.executeCheckin\<close> then mails the outcome: the success mail,
  or the reminder mail whose body says that no new login is needed. Neither
  \<open>performCheckin\<close> nor \<open>sendEmail\<close> throws, so the \<open>catch\<close> of \<open>executeCheckin\<close> is
  never entered.
\<close>

definition performCheckin ::
  "checkin_http \<Rightarrow> string \<Rightarrow> int \<Rightarrow> string \<Rightarrow> system \<Rightarrow> CheckinResult \<times> system" where
  "performCheckin h tok threadId signature s =
     (submitCheckIn h, s\<lparr>calls := calls s @ [SubmitCheckIn tok signature threadId]\<rparr>)"

definition executeCheckin ::
  "checkin_http \<Rightarrow> string \<Rightarrow> int \<Rightarrow> string \<Rightarrow> system \<Rightarrow> CheckinResult \<times> system" where
  "executeCheckin h tok threadId userName s =
    (case performCheckin h tok threadId userName s of
       (checkinResult, s1) \<Rightarrow>
         if CheckinResult.success checkinResult then
           (checkinResult,
            s1\<lparr>calls := calls s1 @
                 [SendEmail (CheckinSuccessEmail (CheckinResult.message checkinResult))]\<rparr>)
         else
           (checkinResult,
            s1\<lparr>calls := calls s1 @
                 [SendEmail (CheckinReminderEmail (CheckinResult.message checkinResult))]\<rparr>))"

section \<open>checkin-scheduler.ts\<close>

text \<open>The inputs of one run of \<open>scheduled\<close>: the clock reading of line 40, the check-in
  reply, and the random token and clock readings of \<open>generateOneTimeLink\<close>.\<close>

record trigger =
  nowCheck :: int
  checkinHttp :: checkin_http
  linkToken :: string
  nowLinkExpires :: int
  nowLinkStored :: int

definition handleAuthenticationRequired ::
  "kv_faults \<Rightarrow> Env \<Rightarrow> trigger \<Rightarrow> system \<Rightarrow> system" where
  "handleAuthenticationRequired F env T s =
    (case generateOneTimeLink F env (linkToken T) (nowLinkExpires T) (nowLinkStored T) s of
       (Inl e, s') \<Rightarrow> s'
     | (Inr oneTimeLink, s') \<Rightarrow>
         s'\<lparr>calls := calls s' @ [SendEmail (LoginRequiredEmail oneTimeLink)]\<rparr>)"

text \<open>
  The \<open>try\<close> block of \<open>scheduled\<close> (lines 36--60). Only the read of \<open>wechat_token\<close> can
  throw: \<open>executeCheckin\<close> and \<open>handleAuthenticationRequired\<close> catch everything
  themselves, so the inner \<open>catch\<close> of lines 52--55 is never entered.
\<close>

definition scheduled_try ::
  "kv_faults \<Rightarrow> Env \<Rightarrow> trigger \<Rightarrow> system \<Rightarrow> (string + unit) \<times> system" where
  "scheduled_try F env T s =
    (case F Get ''wechat_token'' of
       Some e \<Rightarrow> (Inl e, s)
     | None \<Rightarrow>
       (case wechat_token s of
          None \<Rightarrow> (Inr (), handleAuthenticationRequired F env T s)
        | Some (tokenInfo, ttl) \<Rightarrow>
            if TokenInfo.expire tokenInfo > nowCheck T then
              (case executeCheckin (checkinHttp T) (TokenInfo.token tokenInfo)
                      (THREAD_ID env) (USER_NAME env) s of
                 (result, s1) \<Rightarrow>
                   if \<not> CheckinResult.success result
                   then (Inr (), handleAuthenticationRequired F env T s1)
                   else (Inr (), s1))
            else (Inr (), handleAuthenticationRequired F env T s)))"

text \<open>\<open>scheduled\<close>: the outer \<open>catch\<close> mails the error and returns.\<close>

definition scheduled :: "kv_faults \<Rightarrow> Env \<Rightarrow> trigger \<Rightarrow> system \<Rightarrow> (string + unit) \<times> system" where
  "scheduled F env T s =
    (case scheduled_try F env T s of
       (Inl e, s') \<Rightarrow> (Inr (), s'\<lparr>calls := calls s' @ [SendEmail (SystemErrorEmail e)]\<rparr>)
     | (Inr u, s') \<Rightarrow> (Inr u, s'))"

section \<open>Drivers and sample inputs\<close>

text \<open>A run of ticks on one session: each element supplies the store's behaviour and the
  remote replies of one call of \<open>processPollingSession\<close>.\<close>

fun ticks :: "WeChatLoginStatus \<Rightarrow> (kv_faults \<times> tick) list \<Rightarrow> string \<Rightarrow> system \<Rightarrow> system" where
  "ticks E [] pollingId s = s"
| "ticks E ((F, W) # rest) pollingId s =
     ticks E rest pollingId (snd (processPollingSession E F W pollingId s))"

text \<open>The requests to the check-in endpoint among the logged calls.\<close>

definition checkin_submissions :: "system \<Rightarrow> call list" where
  "checkin_submissions s =
     filter (\<lambda>c. case c of SubmitCheckIn tok signature threadId \<Rightarrow> True | _ \<Rightarrow> False) (calls s)"

text \<open>Sample inputs: a session created at 1700000000000 ms, its store, a tick one minute
  later, a worker configuration and a trigger.\<close>

definition ex_pollingId :: string where
  "ex_pollingId = ''polling_1700000000000_k3j9x0q2a''"

definition ex_session :: "int \<Rightarrow> PollingStatus" where
  "ex_session st = \<lparr>PollingStatus.status = st, PollingStatus.message = None,
     PollingStatus.wxCode = None, PollingStatus.uuid = None,
     PollingStatus.timestamp = 1700000000000\<rparr>"

definition ex_store :: "PollingStatus \<Rightarrow> int \<Rightarrow> system" where
  "ex_store ps ttl = \<lparr>sessions = [ex_pollingId \<mapsto> (ps, ttl)],
     uuids = [ex_pollingId \<mapsto> (''061a2b3c4d5e6f7g'', 300)],
     wechat_token = None, onetime = Map.empty, calls = []\<rparr>"

definition ex_tick :: "poll_http \<Rightarrow> exchange_http \<Rightarrow> tick" where
  "ex_tick p x = \<lparr>pollHttp = p, exchangeHttp = x,
     nowExpire = 1700000060000, nowTtl = 1700000060001\<rparr>"

definition ex_env :: Env where
  "ex_env = \<lparr>AUTH_WORKER_URL = Some ''https://checkin.example.workers.dev'',
             USER_NAME = ''student'', THREAD_ID = 123456\<rparr>"

definition ex_linkToken :: string where
  "ex_linkToken = ''00112233445566778899aabbccddeeff00112233445566778899aabbccddeeff''"

definition ex_trigger :: "checkin_http \<Rightarrow> trigger" where
  "ex_trigger h = \<lparr>nowCheck = 1700000000000, checkinHttp = h, linkToken = ex_linkToken,
     nowLinkExpires = 1700000000200, nowLinkStored = 1700000000201\<rparr>"

definition ex_token_store :: "(TokenInfo \<times> int) option \<Rightarrow> system" where
  "ex_token_store t = \<lparr>sessions = Map.empty, uuids = Map.empty, wechat_token = t,
     onetime = Map.empty, calls = []\<rparr>"

text \<open>The reply the check-in service gives to a second submission on the same day
  (the README's example of a failure that needs no action).\<close>

definition msg_already_checked_in :: string where
  "msg_already_checked_in = [CHR 0xE4, CHR 0xBB, CHR 0x8A, CHR 0xE6, CHR 0x97, CHR 0xA5,
     CHR 0xE5, CHR 0xB7, CHR 0xB2, CHR 0xE7, CHR 0xAD, CHR 0xBE, CHR 0xE5, CHR 0x88,
     CHR 0xB0]"

section \<open>Auxiliary facts\<close>

lemma reliable_no_faults: "reliable no_faults"
  by (simp add: reliable_def no_faults_def)

lemma div_1000_floor:
  "(a - b) div 1000 = \<lfloor>(real_of_int a - real_of_int b) / 1000\<rfloor>" for a b :: int
proof -
  have "\<lfloor>real_of_int (a - b) / real_of_int 1000\<rfloor> = (a - b) div 1000"
    by (rule floor_divide_of_int_eq)
  then show ?thesis by simp
qed

subsection \<open>The polling tick\<close>

lemma onTokenResult_sessions [simp]:
  "sessions (snd (onTokenResult E F W tr ps s)) = sessions s"
  by (auto simp: onTokenResult_def Let_def split: option.splits bool.splits)

lemma onTokenResult_timestamp:
  "onTokenResult E F W tr ps s = (Inr ps', s') \<Longrightarrow>
     PollingStatus.timestamp ps' = PollingStatus.timestamp ps"
  by (auto simp: onTokenResult_def Let_def split: option.splits bool.splits if_splits)

lemma onLoginResult_sessions [simp]:
  "sessions (snd (onLoginResult E F W lr ps s)) = sessions s"
  by (auto simp: onLoginResult_def Let_def split: option.splits)

lemma onLoginResult_timestamp:
  "onLoginResult E F W lr ps s = (Inr ps', s') \<Longrightarrow>
     PollingStatus.timestamp ps' = PollingStatus.timestamp ps"
  by (auto simp: onLoginResult_def Let_def dest: onTokenResult_timestamp
      split: option.splits if_splits)

lemma onLoginResult_timestamp_fst:
  "fst (onLoginResult E F W lr ps s) = Inr ps' \<Longrightarrow>
     PollingStatus.timestamp ps' = PollingStatus.timestamp ps"
  using onLoginResult_timestamp[of E F W lr ps s ps' "snd (onLoginResult E F W lr ps s)"]
  by (metis prod.collapse)

lemma processPollingSession_returns:
  "fst (processPollingSession E F W pollingId s) = Inr ()"
  by (simp add: processPollingSession_def split: prod.splits sum.splits)

lemma processPollingSession_try_throws:
  "F Get pollingId = Some e \<Longrightarrow> processPollingSession_try E F W pollingId s = (Inl e, s)"
  by (simp add: processPollingSession_try_def)

lemma processPollingSession_terminal:
  assumes "sessions s pollingId = Some (ps, ttl)"
    and "PollingStatus.status ps \<in> {CONFIRMED E, EXPIRED E, SERVER_ERROR E, ERROR E}"
  shows "processPollingSession E F W pollingId s = (Inr (), s)"
  using assms
  by (auto simp: processPollingSession_def processPollingSession_try_def split: option.splits)

lemma processPollingSession_try_timestamps:
  "map_option (\<lambda>(ps, ttl). PollingStatus.timestamp ps)
      (sessions (snd (processPollingSession_try E F W pollingId s)) q)
   = map_option (\<lambda>(ps, ttl). PollingStatus.timestamp ps) (sessions s q)"
  unfolding processPollingSession_try_def
  by (simp add: case_prod_beta onLoginResult_timestamp_fst split: option.splits sum.splits)

lemma processPollingSession_timestamps:
  "map_option (\<lambda>(ps, ttl). PollingStatus.timestamp ps)
      (sessions (snd (processPollingSession E F W pollingId s)) q)
   = map_option (\<lambda>(ps, ttl). PollingStatus.timestamp ps) (sessions s q)"
  using processPollingSession_try_timestamps[of E F W pollingId s q]
  by (simp add: processPollingSession_def case_prod_beta split: sum.splits)

lemma processPollingSession_keeps_session:
  "(sessions (snd (processPollingSession E F W pollingId s)) q = None) = (sessions s q = None)"
  using processPollingSession_timestamps[of E F W pollingId s q]
  by (metis map_option_is_None)

lemma ticks_timestamps:
  "map_option (\<lambda>(ps, ttl). PollingStatus.timestamp ps) (sessions (ticks E FWs pollingId s) q)
   = map_option (\<lambda>(ps, ttl). PollingStatus.timestamp ps) (sessions s q)"
proof (induction FWs arbitrary: s)
  case Nil
  show ?case by simp
next
  case (Cons a FWs)
  obtain F W where a: "a = (F, W)" by (cases a)
  show ?case
    using Cons.IH[of "snd (processPollingSession E F W pollingId s)"]
    by (simp add: a processPollingSession_timestamps)
qed

lemma processPollingSession_active:
  assumes "reliable F" and "sessions s pollingId = Some (ps, ttl)"
    and "PollingStatus.status ps \<notin> {CONFIRMED E, EXPIRED E, SERVER_ERROR E, ERROR E}"
    and "uuids s pollingId = Some (uid, ttl')" and "uid \<noteq> []"
    and "onLoginResult E F W (pollWeChatLogin uid (pollHttp W)) ps s = (Inr ps2, s1)"
  shows "processPollingSession E F W pollingId s =
    (Inr (), s1\<lparr>sessions := (sessions s1)(pollingId \<mapsto>
        (ps2, if PollingStatus.status ps2 = WAITING E then 300 else 3600))\<rparr>)"
  using assms
  by (simp add: processPollingSession_def processPollingSession_try_def reliable_def)

lemma pollWeChatLogin_transport_failure:
  "\<not> PollingResponse.success (pollWeChatLogin uid (PollThrows m))"
  "\<not> PollingResponse.success (pollWeChatLogin uid (PollNotOk st txt))"
  by (simp_all add: pollWeChatLogin_def PollingResponse_of_def)

lemma startPollingSession_reliable:
  "reliable F \<Longrightarrow> startPollingSession E F nowId rand nowTs uid s =
     (Inr (''polling_'' @ toString nowId @ ''_'' @ rand),
      s\<lparr>sessions := (sessions s)(''polling_'' @ toString nowId @ ''_'' @ rand \<mapsto>
            (\<lparr>PollingStatus.status = WAITING E, PollingStatus.message = None,
              PollingStatus.wxCode = None, PollingStatus.uuid = None,
              PollingStatus.timestamp = nowTs\<rparr>, 300)),
        uuids := (uuids s)(''polling_'' @ toString nowId @ ''_'' @ rand \<mapsto> (uid, 300))\<rparr>)"
  by (simp add: startPollingSession_def reliable_def Let_def)

lemma getPollingStatus_reliable:
  "reliable F \<Longrightarrow> sessions s pollingId = Some (ps, ttl) \<Longrightarrow>
   getPollingStatus E F now pollingId s =
     (if now - PollingStatus.timestamp ps > 300000
      then (status_of (ps\<lparr>PollingStatus.status := EXPIRED E\<rparr>),
            s\<lparr>sessions := (sessions s)(pollingId \<mapsto>
                 (ps\<lparr>PollingStatus.status := EXPIRED E\<rparr>, 3600))\<rparr>)
      else (status_of ps, s))"
  by (simp add: getPollingStatus_def reliable_def Let_def)

subsection \<open>The stored credential\<close>

lemma onTokenResult_token_write:
  assumes "wechat_token (snd (onTokenResult E F W tokenResult pollingStatus s)) = Some (tokenInfo, ttl)"
    and "wechat_token (snd (onTokenResult E F W tokenResult pollingStatus s)) \<noteq> wechat_token s"
  shows "ttl = max 300 ((TokenInfo.expire tokenInfo - nowTtl W) div 1000)"
  using assms
  by (auto simp: onTokenResult_def Let_def split: option.splits bool.splits if_splits)

lemma onLoginResult_token_write:
  assumes "wechat_token (snd (onLoginResult E F W loginResult pollingStatus s)) = Some (tokenInfo, ttl)"
    and "wechat_token (snd (onLoginResult E F W loginResult pollingStatus s)) \<noteq> wechat_token s"
  shows "ttl = max 300 ((TokenInfo.expire tokenInfo - nowTtl W) div 1000)"
  using assms onTokenResult_token_write[of E F W _ _ s tokenInfo ttl]
  by (auto simp: onLoginResult_def Let_def split: option.splits if_splits)

lemma processPollingSession_token_write:
  assumes "wechat_token (snd (processPollingSession E F W pollingId s)) = Some (tokenInfo, ttl)"
    and "wechat_token (snd (processPollingSession E F W pollingId s)) \<noteq> wechat_token s"
  shows "ttl = max 300 ((TokenInfo.expire tokenInfo - nowTtl W) div 1000)"
proof -
  have "wechat_token (snd (processPollingSession E F W pollingId s)) = wechat_token s \<or>
     (\<exists>lr ps. wechat_token (snd (processPollingSession E F W pollingId s))
        = wechat_token (snd (onLoginResult E F W lr ps s)))"
    by (simp add: processPollingSession_def processPollingSession_try_def case_prod_beta
        split: option.splits sum.splits) blast
  with assms show ?thesis
    using onLoginResult_token_write[of E F W _ _ s tokenInfo ttl] by metis
qed

lemma exchangeWeChatCode_success:
  assumes "TokenExchangeResponse.success (exchangeWeChatCode code h)"
  shows "\<exists>t e. h = ExchangeJson (Some t) (Some e) \<and> t \<noteq> [] \<and> e \<noteq> 0 \<and>
           exchangeWeChatCode code h =
             \<lparr>TokenExchangeResponse.success = True,
              TokenExchangeResponse.token = Some (''Bearer '' @ t),
              TokenExchangeResponse.expire = Some e,
              TokenExchangeResponse.message = None\<rparr>"
  using assms
  by (cases h)
     (auto simp: exchangeWeChatCode_def exchange_failed_def truthy_string_def truthy_number_def
           split: option.splits if_splits)

lemma onTokenResult_stored:
  assumes "wechat_token (snd (onTokenResult E F W tokenResult pollingStatus s)) = Some (stored, ttl)"
    and "wechat_token (snd (onTokenResult E F W tokenResult pollingStatus s)) \<noteq> wechat_token s"
  shows "TokenExchangeResponse.success tokenResult \<and>
         TokenExchangeResponse.token tokenResult = Some (TokenInfo.token stored) \<and>
         TokenInfo.expire stored =
           (case TokenExchangeResponse.expire tokenResult of
              None \<Rightarrow> nowExpire W + 3 * 24 * 60 * 60 * 1000
            | Some e \<Rightarrow> if e = 0 then nowExpire W + 3 * 24 * 60 * 60 * 1000 else e)"
  using assms
  by (auto simp: onTokenResult_def Let_def split: option.splits bool.splits if_splits)

lemma onLoginResult_stored:
  assumes "wechat_token (snd (onLoginResult E F W loginResult pollingStatus s)) = Some (stored, ttl)"
    and "wechat_token (snd (onLoginResult E F W loginResult pollingStatus s)) \<noteq> wechat_token s"
  shows "\<exists>t e. exchangeHttp W = ExchangeJson (Some t) (Some e) \<and> t \<noteq> [] \<and> e \<noteq> 0 \<and>
           stored = \<lparr>TokenInfo.token = ''Bearer '' @ t, TokenInfo.expire = e\<rparr>"
proof -
  from assms obtain code where
    w: "wechat_token (snd (onTokenResult E F W (exchangeWeChatCode code (exchangeHttp W))
          (pollingStatus\<lparr>PollingStatus.status := PollingResponse.status loginResult,
             PollingStatus.message := PollingResponse.message loginResult,
             PollingStatus.wxCode := Some code\<rparr>) s)) = Some (stored, ttl)"
    and n: "wechat_token (snd (onTokenResult E F W (exchangeWeChatCode code (exchangeHttp W))
          (pollingStatus\<lparr>PollingStatus.status := PollingResponse.status loginResult,
             PollingStatus.message := PollingResponse.message loginResult,
             PollingStatus.wxCode := Some code\<rparr>) s)) \<noteq> wechat_token s"
    by (auto simp: onLoginResult_def Let_def split: option.splits if_splits)
  from onTokenResult_stored[OF w n]
  have ok: "TokenExchangeResponse.success (exchangeWeChatCode code (exchangeHttp W))"
    and tok: "TokenExchangeResponse.token (exchangeWeChatCode code (exchangeHttp W))
                = Some (TokenInfo.token stored)"
    and ex: "TokenInfo.expire stored =
           (case TokenExchangeResponse.expire (exchangeWeChatCode code (exchangeHttp W)) of
              None \<Rightarrow> nowExpire W + 3 * 24 * 60 * 60 * 1000
            | Some e \<Rightarrow> if e = 0 then nowExpire W + 3 * 24 * 60 * 60 * 1000 else e)"
    by simp_all
  from exchangeWeChatCode_success[OF ok] obtain t e where
    h: "exchangeHttp W = ExchangeJson (Some t) (Some e)" "t \<noteq> []" "e \<noteq> 0"
    and r: "exchangeWeChatCode code (exchangeHttp W) =
             \<lparr>TokenExchangeResponse.success = True,
              TokenExchangeResponse.token = Some (''Bearer '' @ t),
              TokenExchangeResponse.expire = Some e,
              TokenExchangeResponse.message = None\<rparr>"
    by blast
  from tok ex r h(3) have "stored = \<lparr>TokenInfo.token = ''Bearer '' @ t, TokenInfo.expire = e\<rparr>"
    by simp
  with h show ?thesis by blast
qed

lemma processPollingSession_stored:
  assumes "wechat_token (snd (processPollingSession E F W pollingId s)) = Some (stored, ttl)"
    and "wechat_token (snd (processPollingSession E F W pollingId s)) \<noteq> wechat_token s"
  shows "\<exists>t e. exchangeHttp W = ExchangeJson (Some t) (Some e) \<and> t \<noteq> [] \<and> e \<noteq> 0 \<and>
           stored = \<lparr>TokenInfo.token = ''Bearer '' @ t, TokenInfo.expire = e\<rparr>"
proof -
  have "wechat_token (snd (processPollingSession E F W pollingId s)) = wechat_token s \<or>
     (\<exists>lr ps. wechat_token (snd (processPollingSession E F W pollingId s))
        = wechat_token (snd (onLoginResult E F W lr ps s)))"
    by (simp add: processPollingSession_def processPollingSession_try_def case_prod_beta
        split: option.splits sum.splits) blast
  with assms obtain lr ps where
    "wechat_token (snd (onLoginResult E F W lr ps s)) = Some (stored, ttl)"
    "wechat_token (snd (onLoginResult E F W lr ps s)) \<noteq> wechat_token s"
    by metis
  then show ?thesis by (rule onLoginResult_stored)
qed

subsection \<open>The scheduler\<close>

lemma checkin_submissions_email [simp]:
  "checkin_submissions (s\<lparr>calls := calls s @ [SendEmail m]\<rparr>) = checkin_submissions s"
  by (simp add: checkin_submissions_def)

lemma handleAuthenticationRequired_submissions [simp]:
  "checkin_submissions (handleAuthenticationRequired F env T s) = checkin_submissions s"
  by (simp add: handleAuthenticationRequired_def generateOneTimeLink_def storeOneTimeLink_def
      checkin_submissions_def split: option.splits)

lemma handleAuthenticationRequired_reliable:
  "reliable F \<Longrightarrow> handleAuthenticationRequired F env T s =
     s\<lparr>onetime := (onetime s)(linkToken T \<mapsto>
          (\<lparr>purpose = Some ''wechat_auth'', createdAt = nowLinkStored T,
            expiresAt = Some (nowLinkExpires T + 24 * 60 * 60 * 1000)\<rparr>, 86400)),
       calls := calls s @ [SendEmail (LoginRequiredEmail
          ((case AUTH_WORKER_URL env of None \<Rightarrow> ''undefined'' | Some baseUrl \<Rightarrow> baseUrl)
           @ ''/auth/'' @ linkToken T))]\<rparr>"
  by (simp add: handleAuthenticationRequired_def generateOneTimeLink_def storeOneTimeLink_def
      reliable_def)

lemma executeCheckin_submissions:
  "checkin_submissions (snd (executeCheckin h tok threadId userName s))
     = checkin_submissions s @ [SubmitCheckIn tok userName threadId]"
  by (simp add: executeCheckin_def performCheckin_def checkin_submissions_def)

section \<open>The claims\<close>

subsection \<open>The login poll state machine\<close>

text \<open>
  C1 (terminal statuses are never overwritten). The first half holds:
  \<open>processPollingSession\<close> returns at once on a stored session whose status is
  \<open>CONFIRMED\<close>, \<open>EXPIRED\<close>, \<open>SERVER_ERROR\<close> or \<open>ERROR\<close>
  (\<open>processPollingSession_terminal\<close>). The second half does not: the expiry test of
  \<open>getPollingStatus\<close> has no such guard. A session confirmed one minute after its
  creation and queried just over five minutes after its creation --- the store keeps
  a completed session for an hour --- is rewritten from \<open>CONFIRMED\<close> to \<open>EXPIRED\<close>,
  while the tick of the same request leaves it alone. The rewrite does not depend on the
  enum's values (\<open>getPollingStatus_reliable\<close>); the sample only needs \<open>CONFIRMED\<close>
  and \<open>EXPIRED\<close> to differ.
\<close>

theorem confirmed_session_overwritten_by_status_query:
  "processPollingSession errcodes no_faults
       (ex_tick (PollBody 200 (Some 404) None) (ExchangeThrows ''unused''))
       ex_pollingId (ex_store (ex_session (CONFIRMED errcodes)) 3600)
     = (Inr (), ex_store (ex_session (CONFIRMED errcodes)) 3600) \<and>
   snd (loginStatus errcodes no_faults
       (ex_tick (PollBody 200 (Some 404) None) (ExchangeThrows ''unused''))
       1700000300001 ex_pollingId (ex_store (ex_session (CONFIRMED errcodes)) 3600))
     = ex_store (ex_session (EXPIRED errcodes)) 3600 \<and>
   StatusResult.status (fst (loginStatus errcodes no_faults
       (ex_tick (PollBody 200 (Some 404) None) (ExchangeThrows ''unused''))
       1700000300001 ex_pollingId (ex_store (ex_session (CONFIRMED errcodes)) 3600)))
     = Some ''403'' \<and>
   CONFIRMED errcodes \<noteq> EXPIRED errcodes"
proof -
  have noop: "processPollingSession errcodes no_faults
       (ex_tick (PollBody 200 (Some 404) None) (ExchangeThrows ''unused''))
       ex_pollingId (ex_store (ex_session (CONFIRMED errcodes)) 3600)
     = (Inr (), ex_store (ex_session (CONFIRMED errcodes)) 3600)"
    by (rule processPollingSession_terminal[where ps = "ex_session (CONFIRMED errcodes)" and ttl = 3600])
       (simp_all add: ex_store_def ex_session_def)
  have query: "loginStatus errcodes no_faults
       (ex_tick (PollBody 200 (Some 404) None) (ExchangeThrows ''unused''))
       1700000300001 ex_pollingId (ex_store (ex_session (CONFIRMED errcodes)) 3600)
     = (status_of (ex_session (EXPIRED errcodes)), ex_store (ex_session (EXPIRED errcodes)) 3600)"
    unfolding loginStatus_def noop
    by (simp add: getPollingStatus_def no_faults_def ex_store_def ex_session_def Let_def)
  have "toString 403 = ''403''"
    by (simp add: toString_def) code_simp
  then have answer: "StatusResult.status (status_of (ex_session (EXPIRED errcodes))) = Some ''403''"
    by (simp add: status_of_def ex_session_def errcodes_def)
  have differ: "CONFIRMED errcodes \<noteq> EXPIRED errcodes"
    by (simp add: errcodes_def)
  show ?thesis
    unfolding query fst_conv snd_conv using noop answer differ by blast
qed

text \<open>
  C4 (a session older than five minutes expires on the next status query). On the
  \<open>/login-status\<close> path, with a store that accepts its operations, a stored
  non-terminal session whose \<open>timestamp\<close> lies more than \<open>5 * 60 * 1000\<close> ms before the
  clock reading of the query is left persisted as \<open>EXPIRED\<close> with one hour of
  retention, and the answer reports that status, whatever the provider and the token
  exchange reply during the tick.
\<close>

theorem inactive_session_expires_on_status_query:
  assumes "reliable F"
    and "sessions s pollingId = Some (ps, ttl)"
    and "PollingStatus.status ps \<notin> {CONFIRMED E, EXPIRED E, ERROR E}"
    and "nowStatus - PollingStatus.timestamp ps > 5 * 60 * 1000"
  shows "\<exists>ps'. sessions (snd (loginStatus E F W nowStatus pollingId s)) pollingId
            = Some (ps', 3600)
          \<and> PollingStatus.status ps' = EXPIRED E
          \<and> PollingStatus.timestamp ps' = PollingStatus.timestamp ps
          \<and> fst (loginStatus E F W nowStatus pollingId s) = status_of ps'"
proof -
  define s1 where "s1 = snd (processPollingSession E F W pollingId s)"
  have run: "processPollingSession E F W pollingId s = (Inr (), s1)"
    using processPollingSession_returns[of E F W pollingId s]
    by (simp add: s1_def prod_eq_iff)
  from assms(2) processPollingSession_timestamps[of E F W pollingId s pollingId]
  obtain ps1 ttl1 where ps1: "sessions s1 pollingId = Some (ps1, ttl1)"
    and ts: "PollingStatus.timestamp ps1 = PollingStatus.timestamp ps"
    by (auto simp: s1_def map_option_case split: option.splits)
  have "loginStatus E F W nowStatus pollingId s = getPollingStatus E F nowStatus pollingId s1"
    by (simp add: loginStatus_def run)
  with getPollingStatus_reliable[OF assms(1) ps1, of E nowStatus] assms(4) ts
  show ?thesis by auto
qed

text \<open>The same at a sample input: the provider confirms the login during the very tick,
  the credential is exchanged and stored, and the session still ends as \<open>EXPIRED\<close>.\<close>

theorem inactive_session_expires_on_status_query_witness:
  "reliable no_faults \<and>
   sessions (ex_store (ex_session 408) 3600) ex_pollingId = Some (ex_session 408, 3600) \<and>
   PollingStatus.status (ex_session 408)
     \<notin> {CONFIRMED errcodes, EXPIRED errcodes, ERROR errcodes} \<and>
   1700000300001 - PollingStatus.timestamp (ex_session 408) > 5 * 60 * 1000 \<and>
   (\<exists>ps'. sessions (snd (loginStatus errcodes no_faults
              (ex_tick (PollBody 200 (Some 405) (Some ''wx-code-1''))
                       (ExchangeJson (Some ''tok'') (Some 1700259200000)))
              1700000300001 ex_pollingId (ex_store (ex_session 408) 3600))) ex_pollingId
            = Some (ps', 3600)
          \<and> PollingStatus.status ps' = EXPIRED errcodes
          \<and> PollingStatus.timestamp ps' = PollingStatus.timestamp (ex_session 408)
          \<and> fst (loginStatus errcodes no_faults
              (ex_tick (PollBody 200 (Some 405) (Some ''wx-code-1''))
                       (ExchangeJson (Some ''tok'') (Some 1700259200000)))
              1700000300001 ex_pollingId (ex_store (ex_session 408) 3600)) = status_of ps')"
  using inactive_session_expires_on_status_query
    [of no_faults "ex_store (ex_session 408) 3600" ex_pollingId "ex_session 408" 3600
        errcodes 1700000300001
        "ex_tick (PollBody 200 (Some 405) (Some ''wx-code-1''))
                 (ExchangeJson (Some ''tok'') (Some 1700259200000))"]
  by (simp add: reliable_no_faults ex_store_def ex_session_def errcodes_def)

text \<open>
  C5 (polling failures end in the \<open>ERROR\<close> status, never in an exception).
  \<open>processPollingSession\<close> returns normally for every store behaviour, state and
  reply, also where its \<open>try\<close> block throws (\<open>processPollingSession_try_throws\<close>),
  and it never removes a session. A rejected request and a reply that is not \<open>ok\<close>
  are reported by \<open>pollWeChatLogin\<close> as failures; and whenever the poll of a stored,
  non-terminal session with a stored correlation id reports a failure, a store that
  accepts its operations holds the session afterwards with status \<open>ERROR\<close> and the
  poll's message, everything else unchanged.
\<close>

theorem polling_failure_captured_as_error:
  "fst (processPollingSession E F W pollingId s) = Inr () \<and>
   (sessions (snd (processPollingSession E F W pollingId s)) pollingId = None)
     = (sessions s pollingId = None) \<and>
   \<not> PollingResponse.success (pollWeChatLogin uid (PollThrows m)) \<and>
   \<not> PollingResponse.success (pollWeChatLogin uid (PollNotOk st txt)) \<and>
   (reliable F \<longrightarrow> sessions s pollingId = Some (ps, ttl) \<longrightarrow>
    PollingStatus.status ps \<notin> {CONFIRMED E, EXPIRED E, SERVER_ERROR E, ERROR E} \<longrightarrow>
    uuids s pollingId = Some (uid, ttl') \<longrightarrow> uid \<noteq> [] \<longrightarrow>
    \<not> PollingResponse.success (pollWeChatLogin uid (pollHttp W)) \<longrightarrow>
    snd (processPollingSession E F W pollingId s) =
      s\<lparr>sessions := (sessions s)(pollingId \<mapsto>
           (ps\<lparr>PollingStatus.status := ERROR E,
               PollingStatus.message := PollingResponse.message (pollWeChatLogin uid (pollHttp W))\<rparr>,
            if ERROR E = WAITING E then 300 else 3600))\<rparr>)"
proof -
  have "snd (processPollingSession E F W pollingId s) =
      s\<lparr>sessions := (sessions s)(pollingId \<mapsto>
           (ps\<lparr>PollingStatus.status := ERROR E,
               PollingStatus.message := PollingResponse.message (pollWeChatLogin uid (pollHttp W))\<rparr>,
            if ERROR E = WAITING E then 300 else 3600))\<rparr>"
    if "reliable F" "sessions s pollingId = Some (ps, ttl)"
      "PollingStatus.status ps \<notin> {CONFIRMED E, EXPIRED E, SERVER_ERROR E, ERROR E}"
      "uuids s pollingId = Some (uid, ttl')" "uid \<noteq> []"
      "\<not> PollingResponse.success (pollWeChatLogin uid (pollHttp W))"
  proof -
    from that(6) have "onLoginResult E F W (pollWeChatLogin uid (pollHttp W)) ps s =
        (Inr (ps\<lparr>PollingStatus.status := ERROR E,
               PollingStatus.message := PollingResponse.message (pollWeChatLogin uid (pollHttp W))\<rparr>), s)"
      by (simp add: onLoginResult_def)
    from processPollingSession_active[OF that(1-5) this] show ?thesis
      by simp
  qed
  then show ?thesis
    using processPollingSession_returns[of E F W pollingId s]
      processPollingSession_keeps_session[of E F W pollingId s pollingId]
      pollWeChatLogin_transport_failure[of uid]
    by blast
qed

text \<open>The same at a sample input: the request to the provider is rejected.\<close>

theorem polling_failure_captured_as_error_witness:
  "reliable no_faults \<and>
   sessions (ex_store (ex_session 404) 300) ex_pollingId = Some (ex_session 404, 300) \<and>
   PollingStatus.status (ex_session 404)
     \<notin> {CONFIRMED errcodes, EXPIRED errcodes, SERVER_ERROR errcodes, ERROR errcodes} \<and>
   uuids (ex_store (ex_session 404) 300) ex_pollingId = Some (''061a2b3c4d5e6f7g'', 300) \<and>
   \<not> PollingResponse.success
       (pollWeChatLogin ''061a2b3c4d5e6f7g'' (PollThrows ''fetch failed'')) \<and>
   fst (processPollingSession errcodes no_faults
       (ex_tick (PollThrows ''fetch failed'') (ExchangeThrows ''unused''))
       ex_pollingId (ex_store (ex_session 404) 300)) = Inr () \<and>
   sessions (snd (processPollingSession errcodes no_faults
       (ex_tick (PollThrows ''fetch failed'') (ExchangeThrows ''unused''))
       ex_pollingId (ex_store (ex_session 404) 300))) ex_pollingId
   = Some ((ex_session 404)\<lparr>PollingStatus.status := ERROR errcodes,
              PollingStatus.message := Some ''fetch failed''\<rparr>, 3600)"
  using polling_failure_captured_as_error
    [of errcodes no_faults "ex_tick (PollThrows ''fetch failed'') (ExchangeThrows ''unused'')"
        ex_pollingId "ex_store (ex_session 404) 300"
        "''061a2b3c4d5e6f7g''" "''fetch failed''" 0 "[]"
        "ex_session 404" 300 300]
  by (simp add: reliable_no_faults ex_store_def ex_session_def ex_tick_def errcodes_def
        pollWeChatLogin_def PollingResponse_of_def)

text \<open>
  C10 (the tick never touches \<open>timestamp\<close>). For every store behaviour, state and
  reply, \<open>processPollingSession\<close> leaves the \<open>timestamp\<close> of every stored session as
  it was. Hence a session created by \<open>startPollingSession\<close> still carries the clock
  reading of its creation after any run of ticks, and the expiry test of
  \<open>getPollingStatus\<close> compares the query's clock with that reading: it fires exactly
  when more than five minutes have passed since the creation, however recent the last
  tick.
\<close>

theorem tick_keeps_creation_timestamp:
  "map_option (\<lambda>(ps, ttl). PollingStatus.timestamp ps)
       (sessions (snd (processPollingSession E F W pollingId s)) q)
     = map_option (\<lambda>(ps, ttl). PollingStatus.timestamp ps) (sessions s q) \<and>
   (reliable F0 \<longrightarrow> reliable F1 \<longrightarrow>
     (\<exists>pid s0 ps ttl.
        startPollingSession E F0 nowId rand nowTs uid s = (Inr pid, s0) \<and>
        sessions (ticks E FWs pid s0) pid = Some (ps, ttl) \<and>
        PollingStatus.timestamp ps = nowTs \<and>
        getPollingStatus E F1 now pid (ticks E FWs pid s0) =
          (if now - nowTs > 5 * 60 * 1000
           then (status_of (ps\<lparr>PollingStatus.status := EXPIRED E\<rparr>),
                 (ticks E FWs pid s0)\<lparr>sessions := (sessions (ticks E FWs pid s0))(pid \<mapsto>
                    (ps\<lparr>PollingStatus.status := EXPIRED E\<rparr>, 3600))\<rparr>)
           else (status_of ps, ticks E FWs pid s0))))"
proof -
  have "\<exists>pid s0 ps ttl.
        startPollingSession E F0 nowId rand nowTs uid s = (Inr pid, s0) \<and>
        sessions (ticks E FWs pid s0) pid = Some (ps, ttl) \<and>
        PollingStatus.timestamp ps = nowTs \<and>
        getPollingStatus E F1 now pid (ticks E FWs pid s0) =
          (if now - nowTs > 5 * 60 * 1000
           then (status_of (ps\<lparr>PollingStatus.status := EXPIRED E\<rparr>),
                 (ticks E FWs pid s0)\<lparr>sessions := (sessions (ticks E FWs pid s0))(pid \<mapsto>
                    (ps\<lparr>PollingStatus.status := EXPIRED E\<rparr>, 3600))\<rparr>)
           else (status_of ps, ticks E FWs pid s0))"
    if r0: "reliable F0" and r1: "reliable F1"
  proof -
    define pid where "pid = ''polling_'' @ toString nowId @ ''_'' @ rand"
    obtain s0 where s0: "startPollingSession E F0 nowId rand nowTs uid s = (Inr pid, s0)"
      and created: "map_option (\<lambda>(ps, ttl). PollingStatus.timestamp ps) (sessions s0 pid)
                      = Some nowTs"
      using startPollingSession_reliable[OF r0, of E nowId rand nowTs uid s]
      by (simp add: pid_def)
    from created ticks_timestamps[of E FWs pid s0 pid]
    obtain ps ttl where ps: "sessions (ticks E FWs pid s0) pid = Some (ps, ttl)"
      and ts: "PollingStatus.timestamp ps = nowTs"
      by (auto simp: map_option_case split: option.splits)
    show ?thesis
      using s0 ps ts getPollingStatus_reliable[OF r1 ps, of E now] by auto
  qed
  then show ?thesis
    using processPollingSession_timestamps by blast
qed


text \<open>The same at a sample input: a session is created, ticked twice within the first
  minute, and queried.\<close>

theorem tick_keeps_creation_timestamp_witness:
  "reliable no_faults \<and>
   (\<exists>pid s0 ps ttl.
        startPollingSession errcodes no_faults 1700000000000 ''k3j9x0q2a'' 1700000000007
          ''061a2b3c4d5e6f7g'' (ex_token_store None) = (Inr pid, s0) \<and>
        sessions (ticks errcodes
           [(no_faults, ex_tick (PollBody 200 (Some 404) None) (ExchangeThrows ''unused'')),
            (no_faults, ex_tick (PollBody 200 (Some 408) None) (ExchangeThrows ''unused''))]
           pid s0) pid = Some (ps, ttl) \<and>
        PollingStatus.timestamp ps = 1700000000007 \<and>
        getPollingStatus errcodes no_faults 1700000300008 pid (ticks errcodes
           [(no_faults, ex_tick (PollBody 200 (Some 404) None) (ExchangeThrows ''unused'')),
            (no_faults, ex_tick (PollBody 200 (Some 408) None) (ExchangeThrows ''unused''))]
           pid s0) =
          (status_of (ps\<lparr>PollingStatus.status := EXPIRED errcodes\<rparr>),
           (ticks errcodes
           [(no_faults, ex_tick (PollBody 200 (Some 404) None) (ExchangeThrows ''unused'')),
            (no_faults, ex_tick (PollBody 200 (Some 408) None) (ExchangeThrows ''unused''))]
           pid s0)\<lparr>sessions := (sessions (ticks errcodes
           [(no_faults, ex_tick (PollBody 200 (Some 404) None) (ExchangeThrows ''unused'')),
            (no_faults, ex_tick (PollBody 200 (Some 408) None) (ExchangeThrows ''unused''))]
           pid s0))(pid \<mapsto> (ps\<lparr>PollingStatus.status := EXPIRED errcodes\<rparr>, 3600))\<rparr>))"
  using tick_keeps_creation_timestamp
    [of errcodes no_faults "ex_tick (PollBody 200 (Some 404) None) (ExchangeThrows ''unused'')"
        ex_pollingId "ex_token_store None" ex_pollingId no_faults no_faults
        1700000000000 "''k3j9x0q2a''" 1700000000007 "''061a2b3c4d5e6f7g''"
        "[(no_faults, ex_tick (PollBody 200 (Some 404) None) (ExchangeThrows ''unused'')),
          (no_faults, ex_tick (PollBody 200 (Some 408) None) (ExchangeThrows ''unused''))]"
        1700000300008]
  by (simp add: reliable_no_faults)

subsection \<open>The credential\<close>

text \<open>
  C3 (a reply without expiry), as the code has it. \<open>exchangeWeChatCode\<close> accepts a
  reply only when both \<open>Token\<close> and \<open>Expire\<close> are present and truthy; a reply whose
  expiry is missing (or zero) is reported as a failed exchange with the fixed message,
  and \<open>processPollingSession\<close> then stores no credential, sends nothing, and persists
  the session as \<open>ERROR\<close> with that message. The default horizon of three days exists
  in \<open>processPollingSession\<close>, and the block of lines 101--114 applies it to an
  exchange result that reports success with a token and no expiry, and only to such
  a result: with an expiry present, that expiry is stored. \<open>exchangeWeChatCode\<close>
  never returns such a result: it reports success exactly for a reply with a
  non-empty \<open>Token\<close> and a non-zero \<open>Expire\<close>, and then hands both on. Hence every
  credential that \<open>processPollingSession\<close> writes, for any store behaviour, state and
  reply, carries the provider's own \<open>Expire\<close>, never the default.
\<close>

theorem missing_expiry_fails_exchange:
  "(\<not> truthy_number expiry \<longrightarrow>
      exchangeWeChatCode code (ExchangeJson tokenData expiry) = exchange_failed msg_token_failed) \<and>
   (reliable F \<longrightarrow> sessions s pollingId = Some (ps, ttl) \<longrightarrow>
    PollingStatus.status ps \<notin> {CONFIRMED E, EXPIRED E, SERVER_ERROR E, ERROR E} \<longrightarrow>
    uuids s pollingId = Some (uid, ttl') \<longrightarrow> uid \<noteq> [] \<longrightarrow>
    PollingResponse.success (pollWeChatLogin uid (pollHttp W)) \<longrightarrow>
    PollingResponse.wxCode (pollWeChatLogin uid (pollHttp W)) = Some code \<longrightarrow> code \<noteq> [] \<longrightarrow>
    exchangeHttp W = ExchangeJson tokenData expiry \<longrightarrow> \<not> truthy_number expiry \<longrightarrow>
      snd (processPollingSession E F W pollingId s) =
        s\<lparr>sessions := (sessions s)(pollingId \<mapsto>
             (ps\<lparr>PollingStatus.status := ERROR E,
                 PollingStatus.message := Some msg_token_failed,
                 PollingStatus.wxCode := Some code\<rparr>,
              if ERROR E = WAITING E then 300 else 3600))\<rparr>) \<and>
   (TokenExchangeResponse.success tokenResult \<longrightarrow>
    TokenExchangeResponse.token tokenResult = Some tok \<longrightarrow> tok \<noteq> [] \<longrightarrow>
    \<not> truthy_number (TokenExchangeResponse.expire tokenResult) \<longrightarrow>
    F Put ''wechat_token'' = None \<longrightarrow>
      wechat_token (snd (onTokenResult E F W tokenResult pollingStatus s)) =
        Some (\<lparr>TokenInfo.token = tok, TokenInfo.expire = nowExpire W + 3 * 24 * 60 * 60 * 1000\<rparr>,
              max 300 ((nowExpire W + 3 * 24 * 60 * 60 * 1000 - nowTtl W) div 1000))) \<and>
   (TokenExchangeResponse.success tokenResult2 \<longrightarrow>
    TokenExchangeResponse.token tokenResult2 = Some tok2 \<longrightarrow> tok2 \<noteq> [] \<longrightarrow>
    TokenExchangeResponse.expire tokenResult2 = Some e2 \<longrightarrow> e2 \<noteq> 0 \<longrightarrow>
    F Put ''wechat_token'' = None \<longrightarrow>
      wechat_token (snd (onTokenResult E F W tokenResult2 pollingStatus s)) =
        Some (\<lparr>TokenInfo.token = tok2, TokenInfo.expire = e2\<rparr>,
              max 300 ((e2 - nowTtl W) div 1000))) \<and>
   TokenExchangeResponse.success (exchangeWeChatCode code h)
     = (\<exists>t e. h = ExchangeJson (Some t) (Some e) \<and> t \<noteq> [] \<and> e \<noteq> 0) \<and>
   (TokenExchangeResponse.success (exchangeWeChatCode code h) \<longrightarrow>
      truthy_string (TokenExchangeResponse.token (exchangeWeChatCode code h)) \<and>
      truthy_number (TokenExchangeResponse.expire (exchangeWeChatCode code h)) \<and>
      (\<exists>t e. h = ExchangeJson (Some t) (Some e) \<and>
         exchangeWeChatCode code h =
           \<lparr>TokenExchangeResponse.success = True,
            TokenExchangeResponse.token = Some (''Bearer '' @ t),
            TokenExchangeResponse.expire = Some e,
            TokenExchangeResponse.message = None\<rparr>)) \<and>
   (wechat_token (snd (processPollingSession E F W2 pollingId2 s2)) = Some (stored, ttl2) \<longrightarrow>
    wechat_token (snd (processPollingSession E F W2 pollingId2 s2)) \<noteq> wechat_token s2 \<longrightarrow>
      (\<exists>t e. exchangeHttp W2 = ExchangeJson (Some t) (Some e) \<and> t \<noteq> [] \<and> e \<noteq> 0 \<and>
         stored = \<lparr>TokenInfo.token = ''Bearer '' @ t, TokenInfo.expire = e\<rparr>))"
proof (intro conjI impI)
  assume "\<not> truthy_number expiry"
  then show "exchangeWeChatCode code (ExchangeJson tokenData expiry) = exchange_failed msg_token_failed"
    by (simp add: exchangeWeChatCode_def)
next
  assume a: "reliable F" "sessions s pollingId = Some (ps, ttl)"
    "PollingStatus.status ps \<notin> {CONFIRMED E, EXPIRED E, SERVER_ERROR E, ERROR E}"
    "uuids s pollingId = Some (uid, ttl')" "uid \<noteq> []"
    "PollingResponse.success (pollWeChatLogin uid (pollHttp W))"
    "PollingResponse.wxCode (pollWeChatLogin uid (pollHttp W)) = Some code" "code \<noteq> []"
    "exchangeHttp W = ExchangeJson tokenData expiry" "\<not> truthy_number expiry"
  have "onLoginResult E F W (pollWeChatLogin uid (pollHttp W)) ps s =
      (Inr (ps\<lparr>PollingStatus.status := ERROR E,
                 PollingStatus.message := Some msg_token_failed,
                 PollingStatus.wxCode := Some code\<rparr>), s)"
    using a(6-10)
    by (simp add: onLoginResult_def onTokenResult_def exchangeWeChatCode_def exchange_failed_def)
  from processPollingSession_active[OF a(1-5) this]
  show "snd (processPollingSession E F W pollingId s) =
        s\<lparr>sessions := (sessions s)(pollingId \<mapsto>
             (ps\<lparr>PollingStatus.status := ERROR E,
                 PollingStatus.message := Some msg_token_failed,
                 PollingStatus.wxCode := Some code\<rparr>,
              if ERROR E = WAITING E then 300 else 3600))\<rparr>"
    by simp
next
  assume "TokenExchangeResponse.success tokenResult"
    "TokenExchangeResponse.token tokenResult = Some tok" "tok \<noteq> []"
    "\<not> truthy_number (TokenExchangeResponse.expire tokenResult)"
    "F Put ''wechat_token'' = None"
  then show "wechat_token (snd (onTokenResult E F W tokenResult pollingStatus s)) =
        Some (\<lparr>TokenInfo.token = tok, TokenInfo.expire = nowExpire W + 3 * 24 * 60 * 60 * 1000\<rparr>,
              max 300 ((nowExpire W + 3 * 24 * 60 * 60 * 1000 - nowTtl W) div 1000))"
    by (auto simp: onTokenResult_def truthy_number_def Let_def split: option.splits)
next
  assume "TokenExchangeResponse.success tokenResult2"
    "TokenExchangeResponse.token tokenResult2 = Some tok2" "tok2 \<noteq> []"
    "TokenExchangeResponse.expire tokenResult2 = Some e2" "e2 \<noteq> 0"
    "F Put ''wechat_token'' = None"
  then show "wechat_token (snd (onTokenResult E F W tokenResult2 pollingStatus s)) =
        Some (\<lparr>TokenInfo.token = tok2, TokenInfo.expire = e2\<rparr>,
              max 300 ((e2 - nowTtl W) div 1000))"
    by (simp add: onTokenResult_def Let_def)
next
  show "TokenExchangeResponse.success (exchangeWeChatCode code h)
     = (\<exists>t e. h = ExchangeJson (Some t) (Some e) \<and> t \<noteq> [] \<and> e \<noteq> 0)"
    by (cases h)
       (auto simp: exchangeWeChatCode_def exchange_failed_def truthy_string_def
             truthy_number_def split: option.splits)
next
  assume ok: "TokenExchangeResponse.success (exchangeWeChatCode code h)"
  from exchangeWeChatCode_success[OF ok]
  show "truthy_string (TokenExchangeResponse.token (exchangeWeChatCode code h))"
    by (auto simp: truthy_string_def)
  from exchangeWeChatCode_success[OF ok]
  show "truthy_number (TokenExchangeResponse.expire (exchangeWeChatCode code h))"
    by (auto simp: truthy_number_def)
  from exchangeWeChatCode_success[OF ok]
  show "\<exists>t e. h = ExchangeJson (Some t) (Some e) \<and>
         exchangeWeChatCode code h =
           \<lparr>TokenExchangeResponse.success = True,
            TokenExchangeResponse.token = Some (''Bearer '' @ t),
            TokenExchangeResponse.expire = Some e,
            TokenExchangeResponse.message = None\<rparr>"
    by blast
next
  assume "wechat_token (snd (processPollingSession E F W2 pollingId2 s2)) = Some (stored, ttl2)"
    "wechat_token (snd (processPollingSession E F W2 pollingId2 s2)) \<noteq> wechat_token s2"
  then show "\<exists>t e. exchangeHttp W2 = ExchangeJson (Some t) (Some e) \<and> t \<noteq> [] \<and> e \<noteq> 0 \<and>
         stored = \<lparr>TokenInfo.token = ''Bearer '' @ t, TokenInfo.expire = e\<rparr>"
    by (rule processPollingSession_stored)
qed

text \<open>The same at sample inputs: the provider confirms with a code; the exchange replies
  with a token and no expiry in the first run, and with a token and an expiry in the
  second.\<close>

theorem missing_expiry_fails_exchange_witness:
  "\<not> truthy_number None \<and> reliable no_faults \<and>
   sessions (ex_store (ex_session 408) 3600) ex_pollingId = Some (ex_session 408, 3600) \<and>
   PollingStatus.status (ex_session 408)
     \<notin> {CONFIRMED errcodes, EXPIRED errcodes, SERVER_ERROR errcodes, ERROR errcodes} \<and>
   uuids (ex_store (ex_session 408) 3600) ex_pollingId = Some (''061a2b3c4d5e6f7g'', 300) \<and>
   PollingResponse.success
     (pollWeChatLogin ''061a2b3c4d5e6f7g'' (PollBody 200 (Some 405) (Some ''wx-code-1''))) \<and>
   PollingResponse.wxCode
     (pollWeChatLogin ''061a2b3c4d5e6f7g'' (PollBody 200 (Some 405) (Some ''wx-code-1'')))
     = Some ''wx-code-1'' \<and>
   exchangeWeChatCode ''wx-code-1'' (ExchangeJson (Some ''tok'') None)
     = exchange_failed msg_token_failed \<and>
   snd (processPollingSession errcodes no_faults
          (ex_tick (PollBody 200 (Some 405) (Some ''wx-code-1'')) (ExchangeJson (Some ''tok'') None))
          ex_pollingId (ex_store (ex_session 408) 3600))
     = ex_store ((ex_session 408)\<lparr>PollingStatus.status := ERROR errcodes,
                   PollingStatus.message := Some msg_token_failed,
                   PollingStatus.wxCode := Some ''wx-code-1''\<rparr>) 3600 \<and>
   wechat_token (snd (onTokenResult errcodes no_faults
          (ex_tick (PollBody 200 (Some 405) (Some ''wx-code-1'')) (ExchangeJson (Some ''tok'') None))
          \<lparr>TokenExchangeResponse.success = True, TokenExchangeResponse.token = Some ''Bearer tok'',
           TokenExchangeResponse.expire = None, TokenExchangeResponse.message = None\<rparr>
          (ex_session 405) (ex_store (ex_session 408) 3600)))
     = Some (\<lparr>TokenInfo.token = ''Bearer tok'', TokenInfo.expire = 1700259260000\<rparr>, 259199) \<and>
   wechat_token (snd (onTokenResult errcodes no_faults
          (ex_tick (PollBody 200 (Some 405) (Some ''wx-code-1'')) (ExchangeJson (Some ''tok'') None))
          \<lparr>TokenExchangeResponse.success = True, TokenExchangeResponse.token = Some ''Bearer tok'',
           TokenExchangeResponse.expire = Some 1700259200000, TokenExchangeResponse.message = None\<rparr>
          (ex_session 405) (ex_store (ex_session 408) 3600)))
     = Some (\<lparr>TokenInfo.token = ''Bearer tok'', TokenInfo.expire = 1700259200000\<rparr>, 259139) \<and>
   TokenExchangeResponse.success
     (exchangeWeChatCode ''wx-code-1'' (ExchangeJson (Some ''tok'') (Some 1700259200000))) \<and>
   truthy_number (TokenExchangeResponse.expire
     (exchangeWeChatCode ''wx-code-1'' (ExchangeJson (Some ''tok'') (Some 1700259200000)))) \<and>
   wechat_token (snd (processPollingSession errcodes no_faults
          (ex_tick (PollBody 200 (Some 405) (Some ''wx-code-1''))
                   (ExchangeJson (Some ''tok'') (Some 1700259200000)))
          ex_pollingId (ex_store (ex_session 408) 3600)))
     = Some (\<lparr>TokenInfo.token = ''Bearer tok'', TokenInfo.expire = 1700259200000\<rparr>, 259139) \<and>
   wechat_token (ex_store (ex_session 408) 3600) = None \<and>
   (\<exists>t e. exchangeHttp (ex_tick (PollBody 200 (Some 405) (Some ''wx-code-1''))
                   (ExchangeJson (Some ''tok'') (Some 1700259200000)))
             = ExchangeJson (Some t) (Some e) \<and> t \<noteq> [] \<and> e \<noteq> 0 \<and>
           \<lparr>TokenInfo.token = ''Bearer tok'', TokenInfo.expire = 1700259200000\<rparr>
             = \<lparr>TokenInfo.token = ''Bearer '' @ t, TokenInfo.expire = e\<rparr>)"
proof -
  have run: "wechat_token (snd (processPollingSession errcodes no_faults
          (ex_tick (PollBody 200 (Some 405) (Some ''wx-code-1''))
                   (ExchangeJson (Some ''tok'') (Some 1700259200000)))
          ex_pollingId (ex_store (ex_session 408) 3600)))
     = Some (\<lparr>TokenInfo.token = ''Bearer tok'', TokenInfo.expire = 1700259200000\<rparr>, 259139)"
    by (simp add: processPollingSession_def processPollingSession_try_def onLoginResult_def
        onTokenResult_def exchangeWeChatCode_def exchange_failed_def pollWeChatLogin_def
        PollingResponse_of_def truthy_string_def truthy_number_def no_faults_def
        ex_store_def ex_session_def ex_tick_def errcodes_def Let_def)
  have before: "wechat_token (ex_store (ex_session 408) 3600) = None"
    by (simp add: ex_store_def)
  note all = missing_expiry_fails_exchange
    [where expiry = None and code = "''wx-code-1''" and tokenData = "Some ''tok''"
       and F = no_faults and s = "ex_store (ex_session 408) 3600"
       and pollingId = ex_pollingId and ps = "ex_session 408" and ttl = 3600
       and E = errcodes and uid = "''061a2b3c4d5e6f7g''" and ttl' = 300
       and W = "ex_tick (PollBody 200 (Some 405) (Some ''wx-code-1''))
                        (ExchangeJson (Some ''tok'') None)"
       and tokenResult = "\<lparr>TokenExchangeResponse.success = True,
             TokenExchangeResponse.token = Some ''Bearer tok'',
             TokenExchangeResponse.expire = None, TokenExchangeResponse.message = None\<rparr>"
       and tok = "''Bearer tok''" and pollingStatus = "ex_session 405"
       and ?tokenResult2.0 = "\<lparr>TokenExchangeResponse.success = True,
             TokenExchangeResponse.token = Some ''Bearer tok'',
             TokenExchangeResponse.expire = Some 1700259200000,
             TokenExchangeResponse.message = None\<rparr>"
       and ?tok2.0 = "''Bearer tok''" and ?e2.0 = 1700259200000
       and h = "ExchangeJson (Some ''tok'') (Some 1700259200000)"
       and ?W2.0 = "ex_tick (PollBody 200 (Some 405) (Some ''wx-code-1''))
                         (ExchangeJson (Some ''tok'') (Some 1700259200000))"
       and ?pollingId2.0 = ex_pollingId and ?s2.0 = "ex_store (ex_session 408) 3600"
       and stored = "\<lparr>TokenInfo.token = ''Bearer tok'', TokenInfo.expire = 1700259200000\<rparr>"
       and ?ttl2.0 = 259139]
  show ?thesis
    using all run before
    by (simp add: reliable_no_faults ex_store_def ex_session_def ex_tick_def errcodes_def
        pollWeChatLogin_def PollingResponse_of_def truthy_string_def truthy_number_def
        no_faults_def reliable_def exchangeWeChatCode_def exchange_failed_def)
qed

text \<open>The claim as stated fails at that input: the exchange is reported as failed, no
  credential is stored, and the session ends as \<open>ERROR\<close>.\<close>

theorem missing_expiry_counterexample:
  "\<not> TokenExchangeResponse.success
       (exchangeWeChatCode ''wx-code-1'' (ExchangeJson (Some ''tok'') None)) \<and>
   wechat_token (snd (processPollingSession errcodes no_faults
       (ex_tick (PollBody 200 (Some 405) (Some ''wx-code-1'')) (ExchangeJson (Some ''tok'') None))
       ex_pollingId (ex_store (ex_session 408) 3600))) = None \<and>
   map_option (\<lambda>(ps, ttl). PollingStatus.status ps)
     (sessions (snd (processPollingSession errcodes no_faults
       (ex_tick (PollBody 200 (Some 405) (Some ''wx-code-1'')) (ExchangeJson (Some ''tok'') None))
       ex_pollingId (ex_store (ex_session 408) 3600))) ex_pollingId) = Some (ERROR errcodes)"
  by (simp add: processPollingSession_def processPollingSession_try_def onLoginResult_def
        onTokenResult_def exchangeWeChatCode_def exchange_failed_def pollWeChatLogin_def
        PollingResponse_of_def truthy_string_def truthy_number_def no_faults_def
        ex_store_def ex_session_def ex_tick_def errcodes_def)


text \<open>
  C7 (the retention of a stored credential). \<open>setToken\<close> stores the credential with
  \<open>max(300, floor((expire - now) / 1000))\<close> seconds, the division being that of real
  numbers. Every credential that \<open>processPollingSession\<close> writes carries the same
  retention, computed from the stored \<open>expire\<close> and the clock reading of line 104.
  The value is at least 300 for every \<open>expire\<close>, also one at or before the clock.
\<close>

theorem token_ttl_is_floored_remaining_seconds:
  "(F Put ''wechat_token'' = None \<longrightarrow>
      snd (setToken F now tokenInfo s) =
        s\<lparr>wechat_token := Some (tokenInfo,
             max 300 \<lfloor>(real_of_int (TokenInfo.expire tokenInfo) - real_of_int now) / 1000\<rfloor>)\<rparr>) \<and>
   (wechat_token (snd (processPollingSession E F W pollingId s)) = Some (stored, ttl) \<longrightarrow>
    wechat_token (snd (processPollingSession E F W pollingId s)) \<noteq> wechat_token s \<longrightarrow>
      ttl = max 300 \<lfloor>(real_of_int (TokenInfo.expire stored) - real_of_int (nowTtl W)) / 1000\<rfloor>
      \<and> 300 \<le> ttl) \<and>
   300 \<le> max 300 \<lfloor>(real_of_int e - real_of_int now) / 1000\<rfloor>"
proof -
  have "ttl = max 300 \<lfloor>(real_of_int (TokenInfo.expire stored) - real_of_int (nowTtl W)) / 1000\<rfloor>
      \<and> 300 \<le> ttl"
    if "wechat_token (snd (processPollingSession E F W pollingId s)) = Some (stored, ttl)"
      and "wechat_token (snd (processPollingSession E F W pollingId s)) \<noteq> wechat_token s"
    using processPollingSession_token_write[OF that] by (simp add: div_1000_floor)
  then show ?thesis
    by (simp add: setToken_def Let_def div_1000_floor)
qed

text \<open>The same at a sample input: the exchange returns a credential whose expiry lies
  one minute before the clock reading, and it is stored for 300 seconds.\<close>

theorem token_ttl_is_floored_remaining_seconds_witness:
  "no_faults Put ''wechat_token'' = None \<and>
   snd (setToken no_faults 1700000060001
          \<lparr>TokenInfo.token = ''Bearer tok'', TokenInfo.expire = 1700000000000\<rparr>
          (ex_store (ex_session 408) 3600))
     = (ex_store (ex_session 408) 3600)\<lparr>wechat_token :=
          Some (\<lparr>TokenInfo.token = ''Bearer tok'', TokenInfo.expire = 1700000000000\<rparr>, 300)\<rparr> \<and>
   wechat_token (snd (processPollingSession errcodes no_faults
       (ex_tick (PollBody 200 (Some 405) (Some ''wx-code-1''))
                (ExchangeJson (Some ''tok'') (Some 1700000000000)))
       ex_pollingId (ex_store (ex_session 408) 3600)))
     = Some (\<lparr>TokenInfo.token = ''Bearer tok'', TokenInfo.expire = 1700000000000\<rparr>, 300) \<and>
   wechat_token (ex_store (ex_session 408) 3600) = None \<and>
   (300::int) = max 300 \<lfloor>(real_of_int 1700000000000 - real_of_int 1700000060001) / 1000\<rfloor>"
proof -
  have run: "wechat_token (snd (processPollingSession errcodes no_faults
       (ex_tick (PollBody 200 (Some 405) (Some ''wx-code-1''))
                (ExchangeJson (Some ''tok'') (Some 1700000000000)))
       ex_pollingId (ex_store (ex_session 408) 3600)))
     = Some (\<lparr>TokenInfo.token = ''Bearer tok'', TokenInfo.expire = 1700000000000\<rparr>, 300)"
    by (simp add: processPollingSession_def processPollingSession_try_def onLoginResult_def
        onTokenResult_def exchangeWeChatCode_def exchange_failed_def pollWeChatLogin_def
        PollingResponse_of_def truthy_string_def truthy_number_def no_faults_def
        ex_store_def ex_session_def ex_tick_def errcodes_def Let_def)
  have before: "wechat_token (ex_store (ex_session 408) 3600) = None"
    by (simp add: ex_store_def)
  have put: "no_faults Put ''wechat_token'' = None"
    by (simp add: no_faults_def)
  from token_ttl_is_floored_remaining_seconds
    [of no_faults 1700000060001
        "\<lparr>TokenInfo.token = ''Bearer tok'', TokenInfo.expire = 1700000000000\<rparr>"
        "ex_store (ex_session 408) 3600" errcodes
        "ex_tick (PollBody 200 (Some 405) (Some ''wx-code-1''))
                 (ExchangeJson (Some ''tok'') (Some 1700000000000))"
        ex_pollingId
        "\<lparr>TokenInfo.token = ''Bearer tok'', TokenInfo.expire = 1700000000000\<rparr>" 300 0]
  show ?thesis
    using run before put by (simp add: ex_tick_def)
qed

text \<open>
  C8 (a credential is valid iff it is present and expires strictly after now). With a
  store that answers the read, \<open>isTokenValid\<close> holds exactly when a credential is
  stored and its \<open>expire\<close> is strictly greater than the clock reading; a stored
  credential with \<open>expire \<le> now\<close>, in particular \<open>expire = now\<close>, is never valid. The
  scheduler applies the same test: one run of \<open>scheduled\<close> submits a check-in, with
  the stored token, exactly when \<open>isTokenValid\<close> holds at its clock reading, and
  submits nothing otherwise.
\<close>

theorem token_valid_iff_strictly_unexpired:
  "(reliable F \<longrightarrow>
      isTokenValid F now s =
        (\<exists>tokenInfo ttl. wechat_token s = Some (tokenInfo, ttl) \<and> TokenInfo.expire tokenInfo > now)) \<and>
   (wechat_token s = Some (tokenInfo, ttl) \<longrightarrow> TokenInfo.expire tokenInfo \<le> now \<longrightarrow>
      \<not> isTokenValid F now s) \<and>
   checkin_submissions (snd (scheduled F env T s)) =
     checkin_submissions s @
       (case wechat_token s of
          None \<Rightarrow> []
        | Some (tokenInfo, ttl) \<Rightarrow>
            if isTokenValid F (nowCheck T) s
            then [SubmitCheckIn (TokenInfo.token tokenInfo) (USER_NAME env) (THREAD_ID env)]
            else [])"
proof (intro conjI impI)
  assume "reliable F"
  then show "isTokenValid F now s =
        (\<exists>tokenInfo ttl. wechat_token s = Some (tokenInfo, ttl) \<and> TokenInfo.expire tokenInfo > now)"
    by (auto simp: isTokenValid_def getToken_def reliable_def split: option.splits)
next
  assume "wechat_token s = Some (tokenInfo, ttl)" "TokenInfo.expire tokenInfo \<le> now"
  then show "\<not> isTokenValid F now s"
    by (auto simp: isTokenValid_def getToken_def split: option.splits)
next
  show "checkin_submissions (snd (scheduled F env T s)) =
     checkin_submissions s @
       (case wechat_token s of
          None \<Rightarrow> []
        | Some (tokenInfo, ttl) \<Rightarrow>
            if isTokenValid F (nowCheck T) s
            then [SubmitCheckIn (TokenInfo.token tokenInfo) (USER_NAME env) (THREAD_ID env)]
            else [])"
  proof (cases "F Get ''wechat_token''")
    case (Some e)
    then show ?thesis
      by (simp add: scheduled_def scheduled_try_def isTokenValid_def getToken_def
          split: option.splits)
  next
    case None
    show ?thesis
    proof (cases "wechat_token s")
      case absent: None
      with None show ?thesis
        by (simp add: scheduled_def scheduled_try_def)
    next
      case (Some a)
      obtain tokenInfo ttl where a: "a = (tokenInfo, ttl)" by (cases a)
      show ?thesis
        using None Some a executeCheckin_submissions[of "checkinHttp T" "TokenInfo.token tokenInfo"
            "THREAD_ID env" "USER_NAME env" s]
        by (simp add: scheduled_def scheduled_try_def isTokenValid_def getToken_def
            case_prod_beta)
    qed
  qed
qed

text \<open>The same at the boundary: the stored credential expires at the very millisecond
  of the clock reading; it is not valid and no check-in is submitted.\<close>

theorem token_valid_iff_strictly_unexpired_witness:
  "reliable no_faults \<and>
   wechat_token (ex_token_store (Some (\<lparr>TokenInfo.token = ''Bearer tok'',
        TokenInfo.expire = 1700000000000\<rparr>, 300)))
     = Some (\<lparr>TokenInfo.token = ''Bearer tok'', TokenInfo.expire = 1700000000000\<rparr>, 300) \<and>
   TokenInfo.expire \<lparr>TokenInfo.token = ''Bearer tok'', TokenInfo.expire = 1700000000000\<rparr>
     \<le> 1700000000000 \<and>
   \<not> isTokenValid no_faults 1700000000000
       (ex_token_store (Some (\<lparr>TokenInfo.token = ''Bearer tok'',
          TokenInfo.expire = 1700000000000\<rparr>, 300))) \<and>
   checkin_submissions (snd (scheduled no_faults ex_env
       (ex_trigger (CheckinDescription checkin_ok_marker))
       (ex_token_store (Some (\<lparr>TokenInfo.token = ''Bearer tok'',
          TokenInfo.expire = 1700000000000\<rparr>, 300))))) = []"
  using token_valid_iff_strictly_unexpired
    [of no_faults 1700000000000
        "ex_token_store (Some (\<lparr>TokenInfo.token = ''Bearer tok'',
           TokenInfo.expire = 1700000000000\<rparr>, 300))"
        "\<lparr>TokenInfo.token = ''Bearer tok'', TokenInfo.expire = 1700000000000\<rparr>" 300
        ex_env "ex_trigger (CheckinDescription checkin_ok_marker)"]
  by (simp add: reliable_no_faults ex_token_store_def ex_trigger_def checkin_submissions_def)


subsection \<open>The check-in orchestrator\<close>

text \<open>
  C2 (a domain rejection of the check-in does not lead to re-authentication). The
  code does not behave so. \<open>scheduled\<close> tells success from failure only, and on every
  failed check-in it calls \<open>handleAuthenticationRequired\<close> after \<open>executeCheckin\<close> has
  already sent the reminder mail, whose body says that no new login is needed. With a
  valid stored credential and the service's "already checked in today" reply, one run
  submits the check-in, sends the reminder, and then still stores a new one-time link
  and sends the mail that asks for a new login. The stored credential is left as it
  is.
\<close>

theorem domain_rejection_still_requests_login:
  "scheduled no_faults ex_env (ex_trigger (CheckinDescription msg_already_checked_in))
     (ex_token_store (Some (\<lparr>TokenInfo.token = ''Bearer tok'',
        TokenInfo.expire = 1700003600000\<rparr>, 3600)))
   = (Inr (),
      \<lparr>sessions = Map.empty, uuids = Map.empty,
       wechat_token = Some (\<lparr>TokenInfo.token = ''Bearer tok'',
          TokenInfo.expire = 1700003600000\<rparr>, 3600),
       onetime = [ex_linkToken \<mapsto>
          (\<lparr>purpose = Some ''wechat_auth'', createdAt = 1700000000201,
            expiresAt = Some 1700086400200\<rparr>, 86400)],
       calls = [SubmitCheckIn ''Bearer tok'' ''student'' 123456,
                SendEmail (CheckinReminderEmail msg_already_checked_in),
                SendEmail (LoginRequiredEmail
                  (''https://checkin.example.workers.dev/auth/'' @ ex_linkToken))]\<rparr>)"
proof -
  have "\<not> includes_str msg_already_checked_in checkin_ok_marker"
    by (simp add: msg_already_checked_in_def checkin_ok_marker_def)
  then show ?thesis
    by (simp add: scheduled_def scheduled_try_def executeCheckin_def performCheckin_def
        submitCheckIn_def handleAuthenticationRequired_def generateOneTimeLink_def
        storeOneTimeLink_def no_faults_def ex_env_def ex_trigger_def ex_token_store_def)
qed

text \<open>
  C6 (without a valid credential the tick only asks for a new login). When no
  credential is stored, or the stored one has an \<open>expire\<close> that is not strictly
  greater than the clock reading, one run of \<open>scheduled\<close> submits no check-in,
  whatever the store does; and with a store that accepts its operations the run does
  exactly two things: it stores a one-time link under the random token (purpose
  \<open>wechat_auth\<close>, 24 hours) and sends the mail that asks for a new login with the
  link's address.
\<close>

theorem no_valid_token_only_requests_login:
  "(wechat_token s = None \<or>
    (\<exists>tokenInfo ttl. wechat_token s = Some (tokenInfo, ttl)
        \<and> \<not> TokenInfo.expire tokenInfo > nowCheck T)) \<longrightarrow>
   checkin_submissions (snd (scheduled F env T s)) = checkin_submissions s \<and>
   (reliable F \<longrightarrow>
     scheduled F env T s =
       (Inr (),
        s\<lparr>onetime := (onetime s)(linkToken T \<mapsto>
             (\<lparr>purpose = Some ''wechat_auth'', createdAt = nowLinkStored T,
               expiresAt = Some (nowLinkExpires T + 24 * 60 * 60 * 1000)\<rparr>, 86400)),
          calls := calls s @ [SendEmail (LoginRequiredEmail
             ((case AUTH_WORKER_URL env of None \<Rightarrow> ''undefined'' | Some baseUrl \<Rightarrow> baseUrl)
              @ ''/auth/'' @ linkToken T))]\<rparr>))"
proof (intro impI conjI)
  assume a: "wechat_token s = None \<or>
    (\<exists>tokenInfo ttl. wechat_token s = Some (tokenInfo, ttl)
        \<and> \<not> TokenInfo.expire tokenInfo > nowCheck T)"
  then show "checkin_submissions (snd (scheduled F env T s)) = checkin_submissions s"
    by (auto simp: scheduled_def scheduled_try_def split: option.splits)
  assume "reliable F"
  with a show "scheduled F env T s =
       (Inr (),
        s\<lparr>onetime := (onetime s)(linkToken T \<mapsto>
             (\<lparr>purpose = Some ''wechat_auth'', createdAt = nowLinkStored T,
               expiresAt = Some (nowLinkExpires T + 24 * 60 * 60 * 1000)\<rparr>, 86400)),
          calls := calls s @ [SendEmail (LoginRequiredEmail
             ((case AUTH_WORKER_URL env of None \<Rightarrow> ''undefined'' | Some baseUrl \<Rightarrow> baseUrl)
              @ ''/auth/'' @ linkToken T))]\<rparr>)"
    using handleAuthenticationRequired_reliable[of F env T s]
    by (auto simp: scheduled_def scheduled_try_def reliable_def)
qed

text \<open>The same at a sample input: a stored credential that expired a second before the
  run.\<close>

theorem no_valid_token_only_requests_login_witness:
  "(\<exists>tokenInfo ttl.
      wechat_token (ex_token_store (Some (\<lparr>TokenInfo.token = ''Bearer tok'',
          TokenInfo.expire = 1699999999000\<rparr>, 300))) = Some (tokenInfo, ttl)
      \<and> \<not> TokenInfo.expire tokenInfo > nowCheck (ex_trigger (CheckinDescription checkin_ok_marker))) \<and>
   reliable no_faults \<and>
   checkin_submissions (snd (scheduled no_faults ex_env
       (ex_trigger (CheckinDescription checkin_ok_marker))
       (ex_token_store (Some (\<lparr>TokenInfo.token = ''Bearer tok'',
          TokenInfo.expire = 1699999999000\<rparr>, 300))))) = [] \<and>
   scheduled no_faults ex_env (ex_trigger (CheckinDescription checkin_ok_marker))
       (ex_token_store (Some (\<lparr>TokenInfo.token = ''Bearer tok'',
          TokenInfo.expire = 1699999999000\<rparr>, 300)))
     = (Inr (),
        \<lparr>sessions = Map.empty, uuids = Map.empty,
         wechat_token = Some (\<lparr>TokenInfo.token = ''Bearer tok'',
            TokenInfo.expire = 1699999999000\<rparr>, 300),
         onetime = [ex_linkToken \<mapsto>
            (\<lparr>purpose = Some ''wechat_auth'', createdAt = 1700000000201,
              expiresAt = Some 1700086400200\<rparr>, 86400)],
         calls = [SendEmail (LoginRequiredEmail
                    (''https://checkin.example.workers.dev/auth/'' @ ex_linkToken))]\<rparr>)"
  using no_valid_token_only_requests_login
    [of "ex_token_store (Some (\<lparr>TokenInfo.token = ''Bearer tok'',
           TokenInfo.expire = 1699999999000\<rparr>, 300))"
        "ex_trigger (CheckinDescription checkin_ok_marker)" no_faults ex_env]
  by (simp add: reliable_no_faults ex_token_store_def ex_trigger_def ex_env_def
        checkin_submissions_def)

subsection \<open>One-time links\<close>

text \<open>
  C9 (validation consumes the link before it checks it). With a store that accepts its
  operations, \<open>validateOneTimeLink\<close> on a token of at least 32 characters under which
  a record is stored removes the record whatever the outcome of the later checks: the
  answer is \<open>true\<close> only for purpose \<open>wechat_auth\<close> and an expiry that is absent, zero
  or not before the clock, but the store afterwards holds no record for the token in
  either case. Every later call with the same token, whatever the store's behaviour
  and the clock, answers \<open>false\<close> and changes nothing.
\<close>

theorem validation_consumes_link:
  "reliable F \<longrightarrow> 32 \<le> length tok \<longrightarrow> onetime s tok = Some (data, ttl) \<longrightarrow>
     snd (validateOneTimeLink F now tok s) = s\<lparr>onetime := (onetime s)(tok := None)\<rparr> \<and>
     fst (validateOneTimeLink F now tok s) =
       (purpose data = Some ''wechat_auth'' \<and>
        (case expiresAt data of None \<Rightarrow> True | Some e \<Rightarrow> \<not> (e \<noteq> 0 \<and> e < now))) \<and>
     (\<forall>F' now'. validateOneTimeLink F' now' tok (snd (validateOneTimeLink F now tok s))
        = (False, snd (validateOneTimeLink F now tok s)))"
proof (intro impI)
  assume r: "reliable F" and len: "32 \<le> length tok" and stored: "onetime s tok = Some (data, ttl)"
  have consumed: "consumeOneTimeLink F tok s = (Some data, s\<lparr>onetime := (onetime s)(tok := None)\<rparr>)"
    using r stored by (simp add: consumeOneTimeLink_def getOneTimeLink_def reliable_def)
  have snd_eq: "snd (validateOneTimeLink F now tok s) = s\<lparr>onetime := (onetime s)(tok := None)\<rparr>"
    using len consumed by (auto simp: validateOneTimeLink_def split: option.splits)
  have fst_eq: "fst (validateOneTimeLink F now tok s) =
       (purpose data = Some ''wechat_auth'' \<and>
        (case expiresAt data of None \<Rightarrow> True | Some e \<Rightarrow> \<not> (e \<noteq> 0 \<and> e < now)))"
    using len consumed by (auto simp: validateOneTimeLink_def split: option.splits)
  have again: "validateOneTimeLink F' now' tok (s\<lparr>onetime := (onetime s)(tok := None)\<rparr>)
        = (False, s\<lparr>onetime := (onetime s)(tok := None)\<rparr>)" for F' now'
    by (simp add: validateOneTimeLink_def consumeOneTimeLink_def getOneTimeLink_def
        split: option.splits)
  show "snd (validateOneTimeLink F now tok s) = s\<lparr>onetime := (onetime s)(tok := None)\<rparr> \<and>
     fst (validateOneTimeLink F now tok s) =
       (purpose data = Some ''wechat_auth'' \<and>
        (case expiresAt data of None \<Rightarrow> True | Some e \<Rightarrow> \<not> (e \<noteq> 0 \<and> e < now))) \<and>
     (\<forall>F' now'. validateOneTimeLink F' now' tok (snd (validateOneTimeLink F now tok s))
        = (False, snd (validateOneTimeLink F now tok s)))"
    using snd_eq fst_eq again by simp
qed

text \<open>The same at a sample input: a link that expired a millisecond before it is used
  is refused, and is gone afterwards.\<close>

theorem validation_consumes_link_witness:
  "reliable no_faults \<and> 32 \<le> length ex_linkToken \<and>
   onetime ((ex_token_store None)\<lparr>onetime := [ex_linkToken \<mapsto>
       (\<lparr>purpose = Some ''wechat_auth'', createdAt = 1700000000201,
         expiresAt = Some 1700086400200\<rparr>, 86400)]\<rparr>) ex_linkToken
     = Some (\<lparr>purpose = Some ''wechat_auth'', createdAt = 1700000000201,
              expiresAt = Some 1700086400200\<rparr>, 86400) \<and>
   validateOneTimeLink no_faults 1700086400201 ex_linkToken
     ((ex_token_store None)\<lparr>onetime := [ex_linkToken \<mapsto>
       (\<lparr>purpose = Some ''wechat_auth'', createdAt = 1700000000201,
         expiresAt = Some 1700086400200\<rparr>, 86400)]\<rparr>)
     = (False, ex_token_store None) \<and>
   validateOneTimeLink no_faults 1700000000300 ex_linkToken (ex_token_store None)
     = (False, ex_token_store None)"
proof -
  have len: "32 \<le> length ex_linkToken"
    by (simp add: ex_linkToken_def)
  have stored: "onetime ((ex_token_store None)\<lparr>onetime := [ex_linkToken \<mapsto>
       (\<lparr>purpose = Some ''wechat_auth'', createdAt = 1700000000201,
         expiresAt = Some 1700086400200\<rparr>, 86400)]\<rparr>) ex_linkToken
     = Some (\<lparr>purpose = Some ''wechat_auth'', createdAt = 1700000000201,
              expiresAt = Some 1700086400200\<rparr>, 86400)"
    by simp
  have after: "((ex_token_store None)\<lparr>onetime := [ex_linkToken \<mapsto>
       (\<lparr>purpose = Some ''wechat_auth'', createdAt = 1700000000201,
         expiresAt = Some 1700086400200\<rparr>, 86400)]\<rparr>)
       \<lparr>onetime := (onetime ((ex_token_store None)\<lparr>onetime := [ex_linkToken \<mapsto>
       (\<lparr>purpose = Some ''wechat_auth'', createdAt = 1700000000201,
         expiresAt = Some 1700086400200\<rparr>, 86400)]\<rparr>))(ex_linkToken := None)\<rparr>
       = ex_token_store None"
    by (simp add: ex_token_store_def)
  note link = validation_consumes_link
    [of no_faults ex_linkToken
        "(ex_token_store None)\<lparr>onetime := [ex_linkToken \<mapsto>
          (\<lparr>purpose = Some ''wechat_auth'', createdAt = 1700000000201,
            expiresAt = Some 1700086400200\<rparr>, 86400)]\<rparr>"
        "\<lparr>purpose = Some ''wechat_auth'', createdAt = 1700000000201,
          expiresAt = Some 1700086400200\<rparr>" 86400 1700086400201,
     THEN mp, THEN mp, THEN mp, OF reliable_no_faults len stored]
  have state: "snd (validateOneTimeLink no_faults 1700086400201 ex_linkToken
     ((ex_token_store None)\<lparr>onetime := [ex_linkToken \<mapsto>
       (\<lparr>purpose = Some ''wechat_auth'', createdAt = 1700000000201,
         expiresAt = Some 1700086400200\<rparr>, 86400)]\<rparr>)) = ex_token_store None"
    using link[THEN conjunct1] after by simp
  have answer: "fst (validateOneTimeLink no_faults 1700086400201 ex_linkToken
     ((ex_token_store None)\<lparr>onetime := [ex_linkToken \<mapsto>
       (\<lparr>purpose = Some ''wechat_auth'', createdAt = 1700000000201,
         expiresAt = Some 1700086400200\<rparr>, 86400)]\<rparr>)) = False"
    using link[THEN conjunct2, THEN conjunct1] by simp
  have later: "validateOneTimeLink no_faults 1700000000300 ex_linkToken (ex_token_store None)
       = (False, ex_token_store None)"
    using link[THEN conjunct2, THEN conjunct2, THEN spec, THEN spec,
               of no_faults 1700000000300]
    unfolding state .
  show ?thesis
    using reliable_no_faults len stored state answer later by (simp add: prod_eq_iff)
qed


end
